theory Spec2Isabelle
  imports Main "HOL-Library.AList"
begin

section \<open>Values, exceptions and the world the scheduler runs in\<close>

text \<open>
  The payload of a task is whatever \<^verbatim>\<open>yaml.safe_load\<close> returns. The value universe
  below holds the YAML scalars and collections the code touches. A Python float is only
  produced by \<^verbatim>\<open>timedelta.total_seconds()\<close>; it is kept as the exact number of
  microseconds of the timedelta (\<open>YSeconds m\<close> is the float \<open>m / 10^6\<close>), so that its
  sign and its being zero are those of the float. Mapping keys are strings.
\<close>

datatype yval =
    YNone
  | YBool bool
  | YInt int
  | YStr string
  | YSeconds int
  | YList "yval list"
  | YMap "(string \<times> yval) list"

text \<open>The exception classes that the code raises or names in a handler.\<close>

datatype exn =
    OSError
  | PermissionError
  | ProcessLookupError
  | ValueError
  | TypeError
  | AttributeError
  | NameError
  | YAMLError
  | RuntimeError
  | IndexError
  | Timeout
  | LockAcquisitionError

text \<open>\<^verbatim>\<open>except OSError\<close> also catches the subclasses of \<^verbatim>\<open>OSError\<close>.\<close>

fun is_OSError :: "exn \<Rightarrow> bool" where
  "is_OSError OSError = True"
| "is_OSError PermissionError = True"
| "is_OSError ProcessLookupError = True"
| "is_OSError _ = False"

text \<open>Python's truth value of a payload value (\<^verbatim>\<open>if x:\<close>).\<close>

fun truthy :: "yval \<Rightarrow> bool" where
  "truthy YNone = False"
| "truthy (YBool b) = b"
| "truthy (YInt n) = (n \<noteq> 0)"
| "truthy (YStr s) = (s \<noteq> [])"
| "truthy (YSeconds m) = (m \<noteq> 0)"
| "truthy (YList xs) = (xs \<noteq> [])"
| "truthy (YMap kvs) = (kvs \<noteq> [])"

text \<open>
  \<^verbatim>\<open>d.get(k, default)\<close>: only a mapping has the method; on anything else the attribute
  lookup raises. A key stored with the value \<^verbatim>\<open>null\<close> returns \<open>YNone\<close>, not the default.
\<close>

definition py_get :: "yval \<Rightarrow> string \<Rightarrow> yval \<Rightarrow> exn + yval" where
  "py_get d k dflt =
     (case d of
        YMap kvs \<Rightarrow> Inr (case map_of kvs k of None \<Rightarrow> dflt | Some v \<Rightarrow> v)
      | _ \<Rightarrow> Inl AttributeError)"

text \<open>\<^verbatim>\<open>d[k] = v\<close>: item assignment with a string key raises on everything but a mapping.\<close>

definition py_setitem :: "yval \<Rightarrow> string \<Rightarrow> yval \<Rightarrow> exn + yval" where
  "py_setitem d k v =
     (case d of
        YMap kvs \<Rightarrow> Inr (YMap (AList.update k v kvs))
      | _ \<Rightarrow> Inl TypeError)"

text \<open>
  Hashing and equality of set elements: a list or a mapping is unhashable, and
  \<^verbatim>\<open>True == 1\<close>, \<^verbatim>\<open>1.0 == 1\<close> with equal hashes, so a set holds one element for them.
  \<open>py_key\<close> maps a hashable value to the representative that the set compares.
\<close>

definition py_key :: "yval \<Rightarrow> exn + yval" where
  "py_key v =
     (case v of
        YList _ \<Rightarrow> Inl TypeError
      | YMap _ \<Rightarrow> Inl TypeError
      | YBool b \<Rightarrow> Inr (YInt (if b then 1 else 0))
      | YSeconds m \<Rightarrow> Inr (if m mod 1000000 = 0 then YInt (m div 1000000) else YSeconds m)
      | _ \<Rightarrow> Inr v)"

text \<open>
  A \<^verbatim>\<open>datetime\<close> is its number of microseconds on the local time line; one parsed from
  a string with a UTC offset is aware, and subtracting it from the naive
  \<^verbatim>\<open>datetime.now()\<close> raises \<^verbatim>\<open>TypeError\<close>.
\<close>

datatype pydatetime = Naive int | Aware int

definition dt_sub :: "int \<Rightarrow> pydatetime \<Rightarrow> exn + int" where
  "dt_sub now d = (case d of Naive t \<Rightarrow> Inr (now - t) | Aware _ \<Rightarrow> Inl TypeError)"

text \<open>
  The queue's directories, and \<open>Outside\<close> for every other place of the file system,
  where an entry is named by its whole path. A path is a directory and the name of an
  entry of it. A file has its modification time and its text, held as the value
  \<^verbatim>\<open>yaml.safe_load\<close> gives for it (\<open>None\<close>: the loader rejects the text).
\<close>

datatype dirname = Todo | InProgress | Done | Corrupted | Status | Outside

type_synonym path = "dirname \<times> string"

record inode =
  mtime :: int
  content :: "yval option"

text \<open>
  The world: the directories (\<open>None\<close>: the directory does not exist; the entries are in
  the order \<^verbatim>\<open>os.listdir\<close> returns them), the outcomes of the system calls still to come
  (\<open>True\<close>: the call fails; an exhausted list means no further failure), the readings of
  the system clock in microseconds (\<open>reads\<close> counts those taken), the local process table
  as \<^verbatim>\<open>/proc/<pid>\<close> and \<^verbatim>\<open>os.kill(pid, 0)\<close> show it, the library functions of the
  interpreter that the code calls on strings, the place where the file system puts a
  name that is not a single path component when it is joined to a directory
  (\<open>resolve\<close>), and the float that adding 1 to a float gives, rounding included
  (\<open>float_add1\<close>, on microseconds).
\<close>

record world =
  dirs :: "dirname \<Rightarrow> (string \<times> inode) list option"
  faults :: "bool list"
  clock :: "nat \<Rightarrow> int"
  reads :: nat
  gethostname :: string
  getpid :: int
  procfs :: "int \<Rightarrow> bool"
  kill0 :: "int \<Rightarrow> exn option"
  fromisoformat :: "string \<Rightarrow> pydatetime option"
  isoformat :: "int \<Rightarrow> string"
  int_of_str :: "string \<Rightarrow> int option"
  auto_task_id :: "int \<Rightarrow> string"
  resolve :: "dirname \<Rightarrow> string \<Rightarrow> dirname \<times> string"
  float_add1 :: "int \<Rightarrow> int"

text \<open>\<^verbatim>\<open>x + 1\<close> on a payload value.\<close>

definition py_add1 :: "world \<Rightarrow> yval \<Rightarrow> exn + yval" where
  "py_add1 w v =
     (case v of
        YInt n \<Rightarrow> Inr (YInt (n + 1))
      | YBool b \<Rightarrow> Inr (YInt ((if b then 1 else 0) + 1))
      | YSeconds m \<Rightarrow> Inr (YSeconds (float_add1 w m))
      | _ \<Rightarrow> Inl TypeError)"

subsection \<open>Computations that may raise\<close>

type_synonym 'a io = "world \<Rightarrow> (exn + 'a) \<times> world"

definition ret :: "'a \<Rightarrow> 'a io" where
  "ret x = (\<lambda>w. (Inr x, w))"

definition raise :: "exn \<Rightarrow> 'a io" where
  "raise e = (\<lambda>w. (Inl e, w))"

definition bind :: "'a io \<Rightarrow> ('a \<Rightarrow> 'b io) \<Rightarrow> 'b io" where
  "bind m f = (\<lambda>w. case m w of (Inl e, w') \<Rightarrow> (Inl e, w') | (Inr x, w') \<Rightarrow> f x w')"

text \<open>\<^verbatim>\<open>try: m except Exception as e: h e\<close>.\<close>

definition try_except :: "'a io \<Rightarrow> (exn \<Rightarrow> 'a io) \<Rightarrow> 'a io" where
  "try_except m h = (\<lambda>w. case m w of (Inl e, w') \<Rightarrow> h e w' | (Inr x, w') \<Rightarrow> (Inr x, w'))"

text \<open>A pure computation that may raise, run inside a stateful one.\<close>

definition lift :: "exn + 'a \<Rightarrow> 'a io" where
  "lift r = (\<lambda>w. (r, w))"

text \<open>The next outcome of the environment; every system call asks for one.\<close>

definition fault :: "bool io" where
  "fault w = (case faults w of [] \<Rightarrow> (Inr False, w) | b # bs \<Rightarrow> (Inr b, w\<lparr>faults := bs\<rparr>))"

definition os_call :: "'a io \<Rightarrow> 'a io" where
  "os_call m = bind fault (\<lambda>bad. if bad then raise OSError else m)"

definition datetime_now :: "int io" where
  "datetime_now w = (Inr (clock w (reads w)), w\<lparr>reads := Suc (reads w)\<rparr>)"

subsection \<open>The file system calls\<close>

definition lookup :: "world \<Rightarrow> path \<Rightarrow> inode option" where
  "lookup w p = (case dirs w (fst p) of None \<Rightarrow> None | Some es \<Rightarrow> map_of es (snd p))"

definition put_file :: "path \<Rightarrow> inode \<Rightarrow> world \<Rightarrow> world" where
  "put_file p f w =
     (case dirs w (fst p) of
        None \<Rightarrow> w
      | Some es \<Rightarrow> w\<lparr>dirs := (dirs w)(fst p \<mapsto> AList.update (snd p) f es)\<rparr>)"

definition del_file :: "path \<Rightarrow> world \<Rightarrow> world" where
  "del_file p w =
     (case dirs w (fst p) of
        None \<Rightarrow> w
      | Some es \<Rightarrow> w\<lparr>dirs := (dirs w)(fst p \<mapsto> AList.delete (snd p) es)\<rparr>)"

text \<open>
  A name with a NUL character never reaches the file system: the interpreter raises
  \<^verbatim>\<open>ValueError\<close> when it converts the path, before the system call is made;
  \<^verbatim>\<open>os.path.exists\<close> catches that error and answers \<^verbatim>\<open>False\<close>.
\<close>

definition has_nul :: "string \<Rightarrow> bool" where
  "has_nul s = (CHR 0x00 \<in> set s)"

definition path_call :: "string list \<Rightarrow> 'a io \<Rightarrow> 'a io" where
  "path_call names m = (if list_ex has_nul names then raise ValueError else os_call m)"

text \<open>
  \<^verbatim>\<open>os.path.join(d, name)\<close> as the file system reads it: a single path component is the
  entry of that name in \<open>d\<close>; the empty name, \<^verbatim>\<open>.\<close>, \<^verbatim>\<open>..\<close> and a name with a separator
  lead where the world says. A name with a NUL character is kept as it is, for the
  calls to reject.
\<close>

definition single_component :: "string \<Rightarrow> bool" where
  "single_component name =
     (name \<noteq> [] \<and> name \<noteq> ''.'' \<and> name \<noteq> ''..'' \<and> CHR ''/'' \<notin> set name)"

definition os_path_join :: "world \<Rightarrow> dirname \<Rightarrow> string \<Rightarrow> path" where
  "os_path_join w d name =
     (if has_nul name \<or> single_component name then (d, name) else resolve w d name)"

definition os_path_exists :: "world \<Rightarrow> path \<Rightarrow> bool" where
  "os_path_exists w p = (\<not> has_nul (snd p) \<and> lookup w p \<noteq> None)"

definition dir_exists :: "world \<Rightarrow> dirname \<Rightarrow> bool" where
  "dir_exists w d = (dirs w d \<noteq> None)"

definition os_listdir :: "dirname \<Rightarrow> string list io" where
  "os_listdir d =
     os_call (\<lambda>w. case dirs w d of None \<Rightarrow> (Inl OSError, w) | Some es \<Rightarrow> (Inr (map fst es), w))"

definition os_getmtime :: "path \<Rightarrow> int io" where
  "os_getmtime p =
     path_call [snd p] (\<lambda>w. case lookup w p of None \<Rightarrow> (Inl OSError, w) | Some f \<Rightarrow> (Inr (mtime f), w))"

text \<open>\<^verbatim>\<open>with open(p, 'r') as f: yaml.safe_load(f)\<close> of the modules that import \<^verbatim>\<open>yaml\<close>.\<close>

definition open_read :: "path \<Rightarrow> yval option io" where
  "open_read p =
     path_call [snd p] (\<lambda>w. case lookup w p of None \<Rightarrow> (Inl OSError, w) | Some f \<Rightarrow> (Inr (content f), w))"

definition yaml_safe_load :: "yval option \<Rightarrow> yval io" where
  "yaml_safe_load txt = (case txt of None \<Rightarrow> raise YAMLError | Some v \<Rightarrow> ret v)"

text \<open>
  \<^verbatim>\<open>with open(p, 'w') as f: yaml.dump(data, f)\<close>: the file is created with the time of
  the write; a failed call leaves the directory as it was.
\<close>

definition open_write :: "path \<Rightarrow> yval \<Rightarrow> unit io" where
  "open_write p v =
     path_call [snd p] (\<lambda>w. if dir_exists w (fst p)
                   then (Inr (), put_file p \<lparr>mtime = clock w (reads w), content = Some v\<rparr> w)
                   else (Inl OSError, w))"

definition os_rename :: "path \<Rightarrow> path \<Rightarrow> unit io" where
  "os_rename src dst =
     path_call [snd src, snd dst] (\<lambda>w. case lookup w src of
                     None \<Rightarrow> (Inl OSError, w)
                   | Some f \<Rightarrow> if dir_exists w (fst dst)
                               then (Inr (), put_file dst f (del_file src w))
                               else (Inl OSError, w))"

definition os_remove :: "path \<Rightarrow> unit io" where
  "os_remove p =
     path_call [snd p] (\<lambda>w. case lookup w p of None \<Rightarrow> (Inl OSError, w) | Some f \<Rightarrow> (Inr (), del_file p w))"

definition shutil_copy2 :: "path \<Rightarrow> path \<Rightarrow> unit io" where
  "shutil_copy2 src dst =
     path_call [snd src, snd dst] (\<lambda>w. case lookup w src of
                     None \<Rightarrow> (Inl OSError, w)
                   | Some f \<Rightarrow> if dir_exists w (fst dst)
                               then (Inr (), put_file dst f w)
                               else (Inl OSError, w))"

text \<open>\<^verbatim>\<open>shutil.move\<close> of a file: rename, and on \<^verbatim>\<open>OSError\<close> copy and unlink.\<close>

definition shutil_move :: "path \<Rightarrow> path \<Rightarrow> unit io" where
  "shutil_move src dst =
     (\<lambda>w. case os_rename src dst w of
             (Inl e, w') \<Rightarrow>
               if is_OSError e then bind (shutil_copy2 src dst) (\<lambda>_. os_remove src) w'
               else (Inl e, w')
           | (Inr u, w') \<Rightarrow> (Inr u, w'))"

text \<open>\<^verbatim>\<open>try: m except <class>: h\<close> for a handler that names a class of exceptions.\<close>

definition try_except_if :: "(exn \<Rightarrow> bool) \<Rightarrow> 'a io \<Rightarrow> (exn \<Rightarrow> 'a io) \<Rightarrow> 'a io" where
  "try_except_if c m h =
     (\<lambda>w. case m w of
             (Inl e, w') \<Rightarrow> if c e then h e w' else (Inl e, w')
           | (Inr x, w') \<Rightarrow> (Inr x, w'))"

section \<open>utils/file\_ops.py\<close>

definition startswith :: "string \<Rightarrow> string \<Rightarrow> bool" where
  "startswith s p = (take (length p) s = p)"

definition endswith :: "string \<Rightarrow> string \<Rightarrow> bool" where
  "endswith s x = (length x \<le> length s \<and> drop (length s - length x) s = x)"

definition tmp :: "path \<Rightarrow> path" where
  "tmp p = (fst p, snd p @ ''.tmp'')"

definition safe_rename :: "path \<Rightarrow> path \<Rightarrow> unit io" where
  "safe_rename src dst =
     try_except_if is_OSError (os_rename src dst)
       (\<lambda>_. try_except (shutil_move src dst)
          (\<lambda>_. try_except (bind (shutil_copy2 src dst) (\<lambda>_. os_remove src))
             (\<lambda>_. ret ())))"

definition atomic_write_yaml :: "path \<Rightarrow> yval \<Rightarrow> unit io" where
  "atomic_write_yaml p d = bind (open_write (tmp p) d) (\<lambda>_. safe_rename (tmp p) p)"

definition is_transient :: "string \<Rightarrow> bool" where
  "is_transient f =
     (endswith f ''.reserved'' \<or> endswith f ''.completing'' \<or>
      endswith f ''.recovering'' \<or> endswith f ''.tmp'')"

text \<open>
  The loop of \<open>cleanup_temp_files\<close> over the listing; \<^verbatim>\<open>time.time()\<close> reads the same
  clock, and \<open>older\<close> is in seconds.
\<close>

fun cleanup_loop :: "dirname \<Rightarrow> int \<Rightarrow> string list \<Rightarrow> unit io" where
  "cleanup_loop d older [] = ret ()"
| "cleanup_loop d older (f # rest) =
     (if \<not> startswith f ''.'' then cleanup_loop d older rest
      else bind
        (try_except
           (bind datetime_now (\<lambda>now.
            bind (os_getmtime (d, f)) (\<lambda>m.
            if now - m > older * 1000000 \<and> is_transient f then os_remove (d, f) else ret ())))
           (\<lambda>_. ret ()))
        (\<lambda>_. cleanup_loop d older rest))"

definition cleanup_temp_files :: "dirname \<Rightarrow> int \<Rightarrow> unit io" where
  "cleanup_temp_files d older =
     (\<lambda>w. if \<not> dir_exists w d then (Inr (), w)
          else try_except (bind (os_listdir d) (cleanup_loop d older)) (\<lambda>_. ret ()) w)"

definition visible_yaml :: "string \<Rightarrow> bool" where
  "visible_yaml f = (endswith f ''.yaml'' \<and> \<not> startswith f ''.'')"

definition get_yaml_files :: "dirname \<Rightarrow> string list io" where
  "get_yaml_files d =
     (\<lambda>w. if \<not> dir_exists w d then (Inr [], w)
          else bind (os_listdir d) (\<lambda>fs. ret (filter visible_yaml fs)) w)"

definition try_remove :: "path \<Rightarrow> unit io" where
  "try_remove p =
     try_except (\<lambda>w. if os_path_exists w p then os_remove p w else (Inr (), w)) (\<lambda>_. ret ())"

section \<open>utils/locking.py\<close>

text \<open>
  One attempt of \<^verbatim>\<open>FileLock.acquire\<close> either takes the lock or times out, as the
  environment decides. The loop runs over the attempts left: with \<open>Suc k\<close> left the
  attempt number is \<open>max_retries - Suc k\<close>, which is below \<open>max_retries - 1\<close> iff \<open>0 < k\<close>.
  Holding the lock changes nothing that a single caller can observe. The lock file is
  \<^verbatim>\<open><name>.lock\<close> in the lock directory, which \<^verbatim>\<open>os.makedirs\<close> creates first; opening a
  lock file whose name has a NUL character raises \<^verbatim>\<open>ValueError\<close>.
\<close>

definition lock_acquire :: "string \<Rightarrow> unit io" where
  "lock_acquire name =
     (if has_nul name then raise ValueError
      else bind fault (\<lambda>bad. if bad then raise Timeout else ret ()))"

fun acquire_loop :: "string \<Rightarrow> nat \<Rightarrow> unit io" where
  "acquire_loop name 0 = raise LockAcquisitionError"
| "acquire_loop name (Suc k) =
     try_except_if (\<lambda>e. e = Timeout) (lock_acquire name)
       (\<lambda>_. if 0 < k then acquire_loop name k else raise LockAcquisitionError)"

definition acquire_lock :: "string \<Rightarrow> nat \<Rightarrow> nat \<Rightarrow> unit io" where
  "acquire_lock name timeout max_retries =
     bind (os_call (ret ())) (\<lambda>_. acquire_loop name max_retries)"

section \<open>models/task.py\<close>

record task =
  filename :: string
  data :: yval
  path :: path

definition iso :: "int \<Rightarrow> string io" where
  "iso t = (\<lambda>w. (Inr (isoformat w t), w))"

text \<open>\<^verbatim>\<open>datetime.fromisoformat(x)\<close>: a non-string raises \<^verbatim>\<open>TypeError\<close>, a bad string \<^verbatim>\<open>ValueError\<close>.\<close>

definition dt_fromisoformat :: "yval \<Rightarrow> pydatetime io" where
  "dt_fromisoformat x =
     (\<lambda>w. case x of
             YStr s \<Rightarrow> (case fromisoformat w s of None \<Rightarrow> (Inl ValueError, w) | Some d \<Rightarrow> (Inr d, w))
           | _ \<Rightarrow> (Inl TypeError, w))"

definition from_file :: "path \<Rightarrow> task io" where
  "from_file p =
     try_except
       (bind (open_read p) (\<lambda>txt.
        bind (yaml_safe_load txt) (\<lambda>d.
        ret \<lparr>filename = snd p, data = d, path = p\<rparr>)))
       (\<lambda>_. raise RuntimeError)"

definition mark_started :: "task \<Rightarrow> int \<Rightarrow> string \<Rightarrow> string \<Rightarrow> task io" where
  "mark_started t pid host sid =
     bind datetime_now (\<lambda>now.
     bind (iso now) (\<lambda>s.
     bind (lift (py_setitem (data t) ''started_at'' (YStr s))) (\<lambda>d1.
     bind (lift (py_setitem d1 ''process_id'' (YInt pid))) (\<lambda>d2.
     bind (lift (py_setitem d2 ''host'' (YStr host))) (\<lambda>d3.
     bind (lift (py_setitem d3 ''session_id'' (YStr sid))) (\<lambda>d4.
     ret (t\<lparr>data := d4\<rparr>)))))))"

text \<open>
  \<open>mark_completed\<close> reads the clock for \<^verbatim>\<open>completed_at\<close> and a second time for the
  duration; the handler of its \<^verbatim>\<open>try\<close> stores the integer 0.
\<close>

definition mark_completed :: "task \<Rightarrow> bool \<Rightarrow> yval \<Rightarrow> yval \<Rightarrow> task io" where
  "mark_completed t success results error =
     bind datetime_now (\<lambda>t1.
     bind (iso t1) (\<lambda>s1.
     bind (lift (py_setitem (data t) ''completed_at'' (YStr s1))) (\<lambda>d1.
     bind (lift (py_setitem d1 ''success'' (YBool success))) (\<lambda>d2.
     bind (lift (py_setitem d2 ''results'' results)) (\<lambda>d3.
     bind (lift (py_setitem d3 ''error'' error)) (\<lambda>d4.
     bind (try_except
             (bind (lift (py_get d4 ''started_at'' YNone)) (\<lambda>sa.
              bind (dt_fromisoformat sa) (\<lambda>start.
              bind datetime_now (\<lambda>t2.
              bind (lift (dt_sub t2 start)) (\<lambda>delta.
              lift (py_setitem d4 ''duration_seconds'' (YSeconds delta)))))))
             (\<lambda>_. lift (py_setitem d4 ''duration_seconds'' (YInt 0)))) (\<lambda>d5.
     ret (t\<lparr>data := d5\<rparr>))))))))"

section \<open>task\_manager.py\<close>

record task_manager =
  tm_process_id :: int
  tm_session_id :: string

text \<open>
  \<open>create_task\<close>. Without a task id the name is synthesised from \<^verbatim>\<open>time.time()\<close> and
  a fresh UUID; the world gives that name for the clock reading taken. The temporary
  path \<^verbatim>\<open>f"{task_path}.tmp"\<close> is the join of the directory and the name with the suffix.
  \<open>create_task_at\<close> is the function from \<^verbatim>\<open>task_data.copy()\<close> on, once the two paths are
  known.
\<close>

definition synth_task_id :: "string option \<Rightarrow> string io" where
  "synth_task_id task_id =
     (case task_id of
        None \<Rightarrow> bind datetime_now (\<lambda>t w. (Inr (auto_task_id w (t div 1000000)), w))
      | Some s \<Rightarrow> ret s)"

definition create_task_at ::
  "task_manager \<Rightarrow> (string \<times> yval) list \<Rightarrow> string \<Rightarrow> path \<Rightarrow> path \<Rightarrow> string option io" where
  "create_task_at tm task_data tid task_path task_path_tmp =
     bind datetime_now (\<lambda>now.
     bind (iso now) (\<lambda>created.
     let d = AList.update ''session_id'' (YStr (tm_session_id tm))
               (AList.update ''retries'' (YInt 0)
                 (AList.update ''created_by'' (YInt (tm_process_id tm))
                   (AList.update ''created_at'' (YStr created) task_data)))
     in
     try_except
       (bind (acquire_lock ''task_create'' 10 3) (\<lambda>_.
        bind (atomic_write_yaml task_path_tmp (YMap d)) (\<lambda>_.
        bind (os_rename task_path_tmp task_path) (\<lambda>_.
        ret (Some tid)))))
       (\<lambda>_. bind (try_remove task_path_tmp) (\<lambda>_. ret None))))"

definition create_task ::
  "task_manager \<Rightarrow> (string \<times> yval) list \<Rightarrow> string option \<Rightarrow> string option io" where
  "create_task tm task_data task_id =
     bind (synth_task_id task_id) (\<lambda>tid0 w.
     let tid = (if endswith tid0 ''.yaml'' then tid0 else tid0 @ ''.yaml'')
     in create_task_at tm task_data tid
          (os_path_join w Todo tid) (os_path_join w Todo (tid @ ''.tmp'')) w)"

record counts =
  n_todo :: nat
  n_in_progress :: nat
  n_done :: nat
  n_corrupted :: nat

text \<open>One \<^verbatim>\<open>try: counts[k] = len(<listing>) except Exception: pass\<close>; the entry starts at 0.\<close>

definition try_len :: "string list io \<Rightarrow> nat io" where
  "try_len m = try_except (bind m (\<lambda>fs. ret (length fs))) (\<lambda>_. ret 0)"

definition count_tasks :: "counts io" where
  "count_tasks =
     bind (try_len (get_yaml_files Todo)) (\<lambda>a.
     bind (try_len (get_yaml_files InProgress)) (\<lambda>b.
     bind (try_len (get_yaml_files Done)) (\<lambda>c.
     bind (try_len (os_listdir Corrupted)) (\<lambda>d.
     ret \<lparr>n_todo = a, n_in_progress = b, n_done = c, n_corrupted = d\<rparr>))))"

section \<open>utils/process_utils.py\<close>

text \<open>
  \<^verbatim>\<open>int(pid)\<close>: a string goes through the interpreter's parser, a float is truncated
  towards zero, \<^verbatim>\<open>None\<close> and the collections raise \<^verbatim>\<open>TypeError\<close>.
\<close>

definition py_int :: "world \<Rightarrow> yval \<Rightarrow> exn + int" where
  "py_int w v =
     (case v of
        YInt n \<Rightarrow> Inr n
      | YBool b \<Rightarrow> Inr (if b then 1 else 0)
      | YStr s \<Rightarrow> (case int_of_str w s of None \<Rightarrow> Inl ValueError | Some n \<Rightarrow> Inr n)
      | YSeconds m \<Rightarrow> Inr (if m < 0 then - ((- m) div 1000000) else m div 1000000)
      | _ \<Rightarrow> Inl TypeError)"

text \<open>
  \<open>is_process_running\<close>: the host guard first; then the body of the \<^verbatim>\<open>try\<close>, whose two
  handlers both return \<^verbatim>\<open>False\<close> for whatever was raised.
\<close>

definition is_process_running :: "world \<Rightarrow> yval \<Rightarrow> yval \<Rightarrow> bool" where
  "is_process_running w pid hostname =
     (if truthy hostname \<and> hostname \<noteq> YStr (gethostname w) then False
      else
        (case (case py_int w pid of
                 Inl e \<Rightarrow> Inl e
               | Inr n \<Rightarrow>
                   if n \<le> 0 then Inr False
                   else if procfs w n then Inr True
                   else (case kill0 w n of Some e \<Rightarrow> Inl e | None \<Rightarrow> Inr True)) of
           Inl e \<Rightarrow> False
         | Inr b \<Rightarrow> b))"

section \<open>recovery.py\<close>

text \<open>
  The body of the inner \<^verbatim>\<open>try\<close> of \<open>_get_active_sessions\<close> for one heartbeat file:
  \<open>Some k\<close> when \<^verbatim>\<open>active.add\<close> is reached with the element \<open>k\<close>, \<open>None\<close> at a
  \<^verbatim>\<open>continue\<close>. Times and the window are in microseconds.
\<close>

definition heartbeat_session :: "int \<Rightarrow> int \<Rightarrow> string \<Rightarrow> yval option io" where
  "heartbeat_session timeout now file =
     bind (os_getmtime (Status, file)) (\<lambda>m.
     if now - m > timeout then ret None
     else
       bind (open_read (Status, file)) (\<lambda>txt.
       bind (yaml_safe_load txt) (\<lambda>d.
       bind (lift (py_get d ''last_beat'' YNone)) (\<lambda>beat_time_str.
       if \<not> truthy beat_time_str then ret None
       else
         bind (dt_fromisoformat beat_time_str) (\<lambda>beat_time.
         bind (lift (dt_sub now beat_time)) (\<lambda>age.
         if age \<le> timeout
         then bind (lift (py_get d ''session_id'' YNone)) (\<lambda>sid.
              bind (lift (py_key sid)) (\<lambda>k. ret (Some k)))
         else ret None))))))"

fun active_loop :: "int \<Rightarrow> int \<Rightarrow> string list \<Rightarrow> yval list \<Rightarrow> yval list io" where
  "active_loop timeout now [] active = ret active"
| "active_loop timeout now (file # rest) active =
     (if \<not> endswith file ''.heartbeat'' then active_loop timeout now rest active
      else
        bind (try_except (heartbeat_session timeout now file) (\<lambda>_. ret None)) (\<lambda>r.
        active_loop timeout now rest
          (case r of None \<Rightarrow> active | Some k \<Rightarrow> List.insert k active)))"

definition get_active_sessions :: "int \<Rightarrow> yval list io" where
  "get_active_sessions timeout =
     bind datetime_now (\<lambda>now w.
       if \<not> dir_exists w Status then (Inr [], w)
       else try_except (bind (os_listdir Status) (\<lambda>fs. active_loop timeout now fs []))
              (\<lambda>_. ret []) w)"

text \<open>
  The staleness test of \<open>recover_stale_tasks\<close> (the four \<^verbatim>\<open>.get\<close> calls and the
  \<^verbatim>\<open>if/elif\<close> chain), for one decoded entry. \<^verbatim>\<open>x not in active_sessions\<close> hashes \<open>x\<close>.
\<close>

definition classify_stale :: "int \<Rightarrow> yval list \<Rightarrow> yval \<Rightarrow> bool io" where
  "classify_stale timeout active task_data =
     bind (lift (py_get task_data ''session_id'' YNone)) (\<lambda>session_id.
     bind (lift (py_get task_data ''process_id'' YNone)) (\<lambda>pid.
     bind (lift (py_get task_data ''host'' YNone)) (\<lambda>host.
     bind (lift (py_get task_data ''started_at'' YNone)) (\<lambda>started_str.
     bind (if truthy session_id
           then bind (lift (py_key session_id)) (\<lambda>k. ret (k \<notin> set active))
           else ret False) (\<lambda>orphan.
     if orphan then ret True
     else (\<lambda>w.
       if truthy pid \<and> \<not> is_process_running w pid host then (Inr True, w)
       else if truthy started_str
       then try_except
              (bind (dt_fromisoformat started_str) (\<lambda>started.
               bind datetime_now (\<lambda>now.
               bind (lift (dt_sub now started)) (\<lambda>age.
               ret (age > timeout)))))
              (\<lambda>_. ret True) w
       else (Inr True, w)))))))"

text \<open>The body of the per-entry \<^verbatim>\<open>try\<close>: \<open>True\<close> when the counter is incremented.\<close>

definition recover_entry :: "int \<Rightarrow> yval list \<Rightarrow> string \<Rightarrow> bool io" where
  "recover_entry timeout active fname =
     (let task_path = (InProgress, fname);
          recovering_path = (InProgress, ''.'' @ fname @ ''.recovering'');
          new_path = (Todo, fname)
      in
      bind (open_read task_path) (\<lambda>txt.
      bind (yaml_safe_load txt) (\<lambda>task_data.
      bind (classify_stale timeout active task_data) (\<lambda>stale.
      if \<not> stale then ret False
      else
        bind (safe_rename task_path recovering_path) (\<lambda>_.
        bind (lift (py_get task_data ''retries'' (YInt 0))) (\<lambda>r.
        bind (\<lambda>w. (py_add1 w r, w)) (\<lambda>r1.
        bind datetime_now (\<lambda>now.
        bind (iso now) (\<lambda>last_failed.
        bind (\<lambda>w. (Inr (getpid w), w)) (\<lambda>pid.
        bind (lift (py_setitem task_data ''retries'' r1)) (\<lambda>d1.
        bind (lift (py_setitem d1 ''last_failed'' (YStr last_failed))) (\<lambda>d2.
        bind (lift (py_setitem d2 ''failure_reason'' (YStr ''Stale task recovery''))) (\<lambda>d3.
        bind (lift (py_setitem d3 ''recovered_by'' (YInt pid))) (\<lambda>d4.
        bind (atomic_write_yaml (tmp new_path) d4) (\<lambda>_.
        bind (safe_rename (tmp new_path) new_path) (\<lambda>_.
        bind (try_except (os_remove recovering_path) (\<lambda>_. ret ())) (\<lambda>_.
        ret True)))))))))))))))))"

fun recover_loop :: "int \<Rightarrow> yval list \<Rightarrow> string list \<Rightarrow> nat \<Rightarrow> nat io" where
  "recover_loop timeout active [] recovered_count = ret recovered_count"
| "recover_loop timeout active (f # rest) recovered_count =
     bind (try_except (recover_entry timeout active f) (\<lambda>_. ret False)) (\<lambda>recovered.
     recover_loop timeout active rest
       (if recovered then recovered_count + 1 else recovered_count))"

text \<open>
  \<open>recover_stale_tasks\<close>: \<open>timeout\<close> is \<^verbatim>\<open>self.timeout\<close>; the two arguments are not used by
  the body. The outer handler is reached only before the loop starts, when the counter
  is still 0.
\<close>

definition recover_stale_tasks :: "int \<Rightarrow> string \<Rightarrow> string \<Rightarrow> nat io" where
  "recover_stale_tasks timeout current_session_id current_hostname =
     bind (get_active_sessions timeout) (\<lambda>active.
     try_except
       (bind (acquire_lock ''stale_check'' 10 5) (\<lambda>_ w.
          if \<not> dir_exists w InProgress then (Inr 0, w)
          else bind (get_yaml_files InProgress) (\<lambda>fs. recover_loop timeout active fs 0) w))
       (\<lambda>_. ret 0))"

section \<open>scheduler.py\<close>

record scheduler =
  session_id :: string
  process_id :: int
  hostname :: string
  timeout :: int
  shutdown :: bool

text \<open>
  \<^verbatim>\<open>scheduler.py\<close> calls \<^verbatim>\<open>yaml.safe_load\<close> in \<open>_get_task_priority\<close> and in
  \<open>report_progress\<close>, but the module never imports \<^verbatim>\<open>yaml\<close> (its imports are \<^verbatim>\<open>os\<close>,
  \<^verbatim>\<open>uuid\<close>, \<^verbatim>\<open>signal\<close>, \<^verbatim>\<open>datetime\<close> and names of the package's own modules): looking the
  global name up raises \<^verbatim>\<open>NameError\<close> whatever the file holds.
\<close>

definition scheduler_yaml_safe_load :: "yval option \<Rightarrow> yval io" where
  "scheduler_yaml_safe_load txt = raise NameError"

definition get_task_priority :: "string \<Rightarrow> yval io" where
  "get_task_priority fname =
     try_except
       (bind (open_read (Todo, fname)) (\<lambda>txt.
        bind (scheduler_yaml_safe_load txt) (\<lambda>d.
        lift (py_get d ''priority'' (YInt 0)))))
       (\<lambda>_. ret (YInt 0))"

text \<open>\<^verbatim>\<open>tasks.sort(key=..., reverse=True)\<close> computes the key of every element first.\<close>

fun priority_keys :: "string list \<Rightarrow> yval list io" where
  "priority_keys [] = ret []"
| "priority_keys (f # fs) =
     bind (get_task_priority f) (\<lambda>k.
     bind (priority_keys fs) (\<lambda>ks.
     ret (k # ks)))"

text \<open>
  The sort itself. Numbers compare by value (in millionths, so that a float compares
  with an integer); the sort is stable, and with \<^verbatim>\<open>reverse=True\<close> elements of equal key
  keep their order. A list of at most one element is not compared at all. A key that is
  not a number makes the comparison raise \<^verbatim>\<open>TypeError\<close> (strings would compare among
  themselves; no key the code computes is one).
\<close>

definition num_key :: "yval \<Rightarrow> int option" where
  "num_key v =
     (case v of
        YInt n \<Rightarrow> Some (n * 1000000)
      | YBool b \<Rightarrow> Some (if b then 1000000 else 0)
      | YSeconds m \<Rightarrow> Some m
      | _ \<Rightarrow> None)"

definition sort_reverse :: "(string \<times> yval) list \<Rightarrow> exn + string list" where
  "sort_reverse kfs =
     (if length kfs \<le> 1 then Inr (map fst kfs)
      else if list_all (\<lambda>p. num_key (snd p) \<noteq> None) kfs
      then Inr (map fst (sort_key (\<lambda>p. - the (num_key (snd p))) kfs))
      else Inl TypeError)"

definition get_next_task :: "scheduler \<Rightarrow> bool \<Rightarrow> task option io" where
  "get_next_task S check_stale =
     (if shutdown S then ret None
      else
        bind (cleanup_temp_files Todo 3600) (\<lambda>_.
        bind (if check_stale
              then bind (recover_stale_tasks (timeout S) (session_id S) (hostname S)) (\<lambda>_. ret ())
              else ret ()) (\<lambda>_.
        try_except
          (bind (acquire_lock ''todo_lock'' 5 5) (\<lambda>_.
           bind (get_yaml_files Todo) (\<lambda>tasks.
           if tasks = [] then ret None
           else
             bind (priority_keys tasks) (\<lambda>keys.
             bind (lift (sort_reverse (zip tasks keys))) (\<lambda>sorted.
             case sorted of
               [] \<Rightarrow> raise IndexError
             | task_file # _ \<Rightarrow> bind (from_file (Todo, task_file)) (\<lambda>t. ret (Some t)))))))
          (\<lambda>_. ret None))))"

text \<open>
  The task argument of the three transitions may be \<^verbatim>\<open>None\<close> (what \<open>get_next_task\<close>
  returns on failure); \<^verbatim>\<open>not task\<close> is true for it only. A temporary path
  \<^verbatim>\<open>f"{p}.tmp"\<close> of a joined path \<open>p\<close> is the join of the directory and the name with the
  suffix. \<open>move_to_in_progress_at\<close> and \<open>move_to_done_at\<close> are the \<^verbatim>\<open>try\<close> statements of the
  two functions, once their paths are known.
\<close>

definition move_to_in_progress_at ::
  "scheduler \<Rightarrow> task \<Rightarrow> path \<Rightarrow> path \<Rightarrow> path \<Rightarrow> task option io" where
  "move_to_in_progress_at S t temp_reserved dst_path temp_dst =
     try_except
       (bind (acquire_lock ''task_move'' 10 5) (\<lambda>_ w.
          if \<not> os_path_exists w (path t) then (Inr None, w)
          else
            bind (safe_rename (path t) temp_reserved) (\<lambda>_.
            bind (mark_started t (process_id S) (hostname S) (session_id S)) (\<lambda>t1.
            bind (atomic_write_yaml temp_dst (data t1)) (\<lambda>_.
            bind (safe_rename temp_dst dst_path) (\<lambda>_.
            bind (try_remove temp_reserved) (\<lambda>_.
            ret (Some (t1\<lparr>path := dst_path\<rparr>))))))) w))
       (\<lambda>_. bind (safe_rename temp_reserved (path t)) (\<lambda>_. ret None))"

definition move_to_in_progress :: "scheduler \<Rightarrow> task option \<Rightarrow> task option io" where
  "move_to_in_progress S topt =
     (case topt of
        None \<Rightarrow> ret None
      | Some t \<Rightarrow>
          if shutdown S then ret None
          else (\<lambda>w.
            move_to_in_progress_at S t
              (os_path_join w Todo (''.'' @ filename t @ ''.reserved''))
              (os_path_join w InProgress (filename t))
              (os_path_join w InProgress (filename t @ ''.tmp'')) w))"

definition move_to_done_at ::
  "task \<Rightarrow> bool \<Rightarrow> yval \<Rightarrow> yval \<Rightarrow> path \<Rightarrow> path \<Rightarrow> path \<Rightarrow> path \<Rightarrow> bool io" where
  "move_to_done_at t success results error in_prog completing done_path temp_done =
     try_except
       (bind (acquire_lock ''task_done'' 10 5) (\<lambda>_.
        bind (safe_rename in_prog completing) (\<lambda>_.
        bind (mark_completed t success results error) (\<lambda>t1.
        bind (atomic_write_yaml temp_done (data t1)) (\<lambda>_.
        bind (safe_rename temp_done done_path) (\<lambda>_.
        bind (try_remove completing) (\<lambda>_.
        ret True)))))))
       (\<lambda>_. bind (safe_rename completing in_prog) (\<lambda>_. ret False))"

definition move_to_done :: "scheduler \<Rightarrow> task option \<Rightarrow> bool \<Rightarrow> yval \<Rightarrow> yval \<Rightarrow> bool io" where
  "move_to_done S topt success results error =
     (case topt of
        None \<Rightarrow> ret False
      | Some t \<Rightarrow>
          if shutdown S then ret False
          else (\<lambda>w.
            move_to_done_at t success results error (path t)
              (os_path_join w InProgress (''.'' @ filename t @ ''.completing''))
              (os_path_join w Done (filename t))
              (os_path_join w Done (filename t @ ''.tmp'')) w))"

text \<open>
  \<open>report_progress\<close>: \<open>pct\<close> and \<open>msg\<close> are optional; an empty message counts as none.
\<close>

definition report_progress ::
  "scheduler \<Rightarrow> task option \<Rightarrow> int option \<Rightarrow> string option \<Rightarrow> bool io" where
  "report_progress S topt pct msg =
     (case topt of
        None \<Rightarrow> ret False
      | Some t \<Rightarrow>
          if shutdown S then ret False
          else
            try_except
              (bind (acquire_lock (''progress_'' @ filename t) 5 5) (\<lambda>_.
               bind (open_read (path t)) (\<lambda>txt.
               bind (scheduler_yaml_safe_load txt) (\<lambda>task_data.
               bind (lift (py_get task_data ''progress'' (YMap []))) (\<lambda>p0.
               bind (lift (case pct of
                             None \<Rightarrow> Inr p0
                           | Some x \<Rightarrow> py_setitem p0 ''percentage'' (YInt (max 0 (min 100 x))))) (\<lambda>p1.
               bind (lift (case msg of
                             None \<Rightarrow> Inr p1
                           | Some m \<Rightarrow> if m = [] then Inr p1 else py_setitem p1 ''status'' (YStr m))) (\<lambda>p2.
               bind datetime_now (\<lambda>now.
               bind (iso now) (\<lambda>s.
               bind (lift (py_setitem p2 ''updated_at'' (YStr s))) (\<lambda>p3.
               bind (lift (py_setitem task_data ''progress'' p3)) (\<lambda>td.
               bind (atomic_write_yaml (tmp (path t)) td) (\<lambda>_.
               bind (safe_rename (tmp (path t)) (path t)) (\<lambda>_.
               ret True)))))))))))))
              (\<lambda>_. ret False))"

section \<open>Notions for stating the claims\<close>

text \<open>The visible entries of a directory, in listing order; none when it is missing.\<close>

definition visible_names :: "world \<Rightarrow> dirname \<Rightarrow> string list" where
  "visible_names w d = (case dirs w d of None \<Rightarrow> [] | Some es \<Rightarrow> filter visible_yaml (map fst es))"

text \<open>
  The start time \<open>mark_completed\<close> can use (\<^verbatim>\<open>started_at\<close> is a string that parses to a
  naive datetime), and the duration it stores: the second clock reading minus that start,
  or the integer 0.
\<close>

definition started_of :: "world \<Rightarrow> (string \<times> yval) list \<Rightarrow> int option" where
  "started_of w kvs =
     (case map_of kvs ''started_at'' of
        Some (YStr s) \<Rightarrow> (case fromisoformat w s of Some (Naive st) \<Rightarrow> Some st | _ \<Rightarrow> None)
      | _ \<Rightarrow> None)"

definition duration_of :: "world \<Rightarrow> (string \<times> yval) list \<Rightarrow> yval" where
  "duration_of w kvs =
     (case started_of w kvs of
        Some st \<Rightarrow> YSeconds (clock w (Suc (reads w)) - st)
      | None \<Rightarrow> YInt 0)"

text \<open>
  A computation is read-only when, as long as no call fails, it leaves the world as it
  was but for the number of clock readings; it preserves \<open>I\<close> when \<open>I\<close> holds after it
  whenever it held before.
\<close>

definition ro :: "'a io \<Rightarrow> bool" where
  "ro m = (\<forall>w. faults w = [] \<longrightarrow> (\<exists>n. snd (m w) = w\<lparr>reads := n\<rparr>))"

definition pres :: "(world \<Rightarrow> bool) \<Rightarrow> 'a io \<Rightarrow> bool" where
  "pres I m = (\<forall>w. I w \<longrightarrow> I (snd (m w)))"


text \<open>A computation never raises: started in any world, it returns a value.\<close>

definition noraise :: "'a io \<Rightarrow> bool" where
  "noraise m = (\<forall>w. \<exists>x w'. m w = (Inr x, w'))"

text \<open>A field of a decoded record, as \<^verbatim>\<open>d.get(k)\<close> returns it (\<^verbatim>\<open>None\<close> when missing).\<close>

definition field_of :: "(string \<times> yval) list \<Rightarrow> string \<Rightarrow> yval" where
  "field_of kvs k = (case map_of kvs k of None \<Rightarrow> YNone | Some v \<Rightarrow> v)"

text \<open>
  What one heartbeat file contributes to the active set, stated without the exceptions:
  the name can be opened, the file exists, its mtime is within the window, it decodes to a mapping, \<^verbatim>\<open>last_beat\<close>
  is a non-empty string that parses to a naive time within the window, and
  \<^verbatim>\<open>session_id\<close> (or \<^verbatim>\<open>None\<close>, when the record has none) is hashable; the element added is
  its representative. \<open>expected_active\<close> collects this over the \<^verbatim>\<open>.heartbeat\<close> entries of
  \<^verbatim>\<open>.status/\<close>, at the first clock reading.
\<close>

definition heartbeat_key :: "world \<Rightarrow> int \<Rightarrow> int \<Rightarrow> string \<Rightarrow> yval option" where
  "heartbeat_key w tmo now file =
     (if has_nul file then None else
      case lookup w (Status, file) of
        None \<Rightarrow> None
      | Some ino \<Rightarrow>
          if now - mtime ino > tmo then None
          else (case content ino of
                  Some (YMap kvs) \<Rightarrow>
                    (case field_of kvs ''last_beat'' of
                       YStr s \<Rightarrow>
                         if s = [] then None
                         else (case fromisoformat w s of
                            Some (Naive beat) \<Rightarrow>
                              if now - beat \<le> tmo
                              then (case py_key (field_of kvs ''session_id'') of
                                      Inr k \<Rightarrow> Some k
                                    | Inl _ \<Rightarrow> None)
                              else None
                          | _ \<Rightarrow> None)
                     | _ \<Rightarrow> None)
                | _ \<Rightarrow> None))"

definition status_listing :: "world \<Rightarrow> string list" where
  "status_listing w = (case dirs w Status of None \<Rightarrow> [] | Some es \<Rightarrow> map fst es)"

definition expected_active :: "world \<Rightarrow> int \<Rightarrow> yval set" where
  "expected_active w tmo =
     {k. \<exists>file \<in> set (status_listing w).
           endswith file ''.heartbeat'' \<and> heartbeat_key w tmo (clock w (reads w)) file = Some k}"

section \<open>Example worlds\<close>

text \<open>
  A world for the examples: no directory exists, no call fails, the clock stands at 0,
  the process table is empty, and no string parses.
\<close>

definition world0 :: world where
  "world0 =
     \<lparr>dirs = (\<lambda>_. None), faults = [], clock = (\<lambda>_. 0), reads = 0,
      gethostname = ''alpha'', getpid = 100, procfs = (\<lambda>_. False),
      kill0 = (\<lambda>_. Some ProcessLookupError), fromisoformat = (\<lambda>_. None),
      isoformat = (\<lambda>_. ''t''), int_of_str = (\<lambda>_. None), auto_task_id = (\<lambda>_. ''task_0_00000000''),
      resolve = (\<lambda>d n. (Outside, n)), float_add1 = (\<lambda>m. m + 1000000)\<rparr>"

text \<open>Process 4242 exists but belongs to another user, and \<^verbatim>\<open>/proc\<close> does not show it.\<close>

definition world_eperm :: world where
  "world_eperm = world0\<lparr>kill0 := (\<lambda>n. if n = 4242 then Some PermissionError else Some ProcessLookupError)\<rparr>"

text \<open>A file holding the value \<open>v\<close>, and a scheduler that is not shut down.\<close>

definition file_of :: "yval \<Rightarrow> inode" where
  "file_of v = \<lparr>mtime = 0, content = Some v\<rparr>"

definition sched0 :: scheduler where
  "sched0 = \<lparr>session_id = ''s1'', process_id = 100, hostname = ''alpha'',
             timeout = 900000000, shutdown = False\<rparr>"

text \<open>
  The clock reads 50, 51, 52, ...; \<^verbatim>\<open>T40\<close> and \<^verbatim>\<open>T100\<close> stand for the ISO strings of the
  times 40 and 100. \<^verbatim>\<open>in_progress/a.yaml\<close> was started at 100, later than any reading
  taken while it is completed.
\<close>

definition world_c6 :: world where
  "world_c6 = world0\<lparr>clock := (\<lambda>n. 50 + int n),
     fromisoformat := (\<lambda>s. if s = ''T40'' then Some (Naive 40)
                           else if s = ''T100'' then Some (Naive 100) else None),
     dirs := (\<lambda>d. if d = InProgress
                   then Some [(''a.yaml'', file_of (YMap [(''started_at'', YStr ''T100'')]))]
                   else Some [])\<rparr>"

definition task_c6 :: task where
  "task_c6 = \<lparr>filename = ''a.yaml'', data = YMap [(''started_at'', YStr ''T100'')],
              path = (InProgress, ''a.yaml'')\<rparr>"

definition task_c6_early :: task where
  "task_c6_early = \<lparr>filename = ''a.yaml'', data = YMap [(''started_at'', YStr ''T40'')],
                    path = (InProgress, ''a.yaml'')\<rparr>"

text \<open>
  \<^verbatim>\<open>todo/\<close> lists three tasks of priorities 1, 10 and 3 in this order; the other
  directories are empty.
\<close>

definition world_c5 :: world where
  "world_c5 = world0\<lparr>dirs := (\<lambda>d. if d = Todo
       then Some [(''p1.yaml'', file_of (YMap [(''priority'', YInt 1)])),
                  (''p10.yaml'', file_of (YMap [(''priority'', YInt 10)])),
                  (''p3.yaml'', file_of (YMap [(''priority'', YInt 3)]))]
       else Some [])\<rparr>"

text \<open>
  \<^verbatim>\<open>corrupted/\<close> holds a hidden transient and a text file, no visible entry; \<^verbatim>\<open>todo/\<close>
  holds one task; \<^verbatim>\<open>in_progress/\<close> does not exist.
\<close>

definition world_c9 :: world where
  "world_c9 = world0\<lparr>dirs := (\<lambda>d.
       if d = Todo then Some [(''a.yaml'', file_of (YMap []))]
       else if d = Corrupted then Some [(''.x.yaml.tmp'', file_of YNone), (''notes.txt'', file_of YNone)]
       else if d = InProgress then None
       else Some [])\<rparr>"


text \<open>
  Host \<^verbatim>\<open>alpha\<close>, clock at 50, window 900 s. Session \<^verbatim>\<open>s1\<close> has a heartbeat of mtime 45
  and \<^verbatim>\<open>last_beat\<close> 40; \<^verbatim>\<open>in_progress/a.yaml\<close> belongs to \<^verbatim>\<open>s1\<close>, was started at 40 by
  pid 4242 on the remote host \<^verbatim>\<open>beta\<close>.
\<close>

definition kvs_c2 :: "(string \<times> yval) list" where
  "kvs_c2 = [(''session_id'', YStr ''s1''), (''process_id'', YInt 4242), (''host'', YStr ''beta''),
             (''started_at'', YStr ''T40'')]"

definition world_c2 :: world where
  "world_c2 = world0\<lparr>clock := (\<lambda>n. 50 + int n),
     fromisoformat := (\<lambda>s. if s = ''T40'' then Some (Naive 40) else None),
     dirs := (\<lambda>d.
       if d = Status
       then Some [(''s1.heartbeat'',
                   \<lparr>mtime = 45, content = Some (YMap [(''session_id'', YStr ''s1''), (''last_beat'', YStr ''T40'')])\<rparr>)]
       else if d = InProgress then Some [(''a.yaml'', file_of (YMap kvs_c2))]
       else Some [])\<rparr>"

text \<open>A fresh heartbeat file whose record has a \<^verbatim>\<open>last_beat\<close> but no \<^verbatim>\<open>session_id\<close>.\<close>

definition world_c4 :: world where
  "world_c4 = world0\<lparr>clock := (\<lambda>n. 50 + int n),
     fromisoformat := (\<lambda>s. if s = ''T40'' then Some (Naive 40) else None),
     dirs := (\<lambda>d.
       if d = Status
       then Some [(''anon.heartbeat'', \<lparr>mtime = 45, content = Some (YMap [(''last_beat'', YStr ''T40'')])\<rparr>)]
       else Some [])\<rparr>"

text \<open>
  The world of \<open>world_c2\<close> where the calls of \<open>_get_active_sessions\<close> and the creation of
  the lock directory succeed and all five attempts at the lock time out; and that world
  with an undecodable \<^verbatim>\<open>bad.yaml\<close> listed in \<^verbatim>\<open>in_progress/\<close> before \<^verbatim>\<open>a.yaml\<close>.
\<close>

definition world_c7 :: world where
  "world_c7 = world_c2\<lparr>faults := [False, False, False, False, True, True, True, True, True]\<rparr>"

definition world_c7_entries :: world where
  "world_c7_entries = world_c2\<lparr>dirs := (dirs world_c2)
     (InProgress \<mapsto> [(''bad.yaml'', \<lparr>mtime = 0, content = None\<rparr>),
                      (''a.yaml'', file_of (YMap kvs_c2))])\<rparr>"

text \<open>
  The world of \<open>world_c6\<close> where the first five system calls of \<open>move_to_done\<close> succeed
  (creating the lock directory, taking the lock, the rename to the \<^verbatim>\<open>.completing\<close>
  marker, writing the temporary file and renaming it once) and the next four fail: the
  rename into \<^verbatim>\<open>done/\<close>, the rename inside \<^verbatim>\<open>shutil.move\<close>, its copy, and the last copy.
  And a task record whose file name holds a NUL character.
\<close>

definition world_c7_rename :: world where
  "world_c7_rename =
     world_c6\<lparr>faults := [False, False, False, False, False, True, True, True, True]\<rparr>"

definition task_nul :: task where
  "task_nul = \<lparr>filename = [CHR ''a'', CHR 0x00], data = YMap [(''started_at'', YStr ''T40'')],
               path = (InProgress, ''a.yaml'')\<rparr>"

text \<open>
  No file name is visible in two of the four directories; and the \<^verbatim>\<open>retries\<close> field of
  the record stored in a file.
\<close>

definition exclusive :: "world \<Rightarrow> bool" where
  "exclusive w = distinct (concat (map (visible_names w) [Todo, InProgress, Done, Corrupted]))"

definition retries_at :: "world \<Rightarrow> path \<Rightarrow> yval option" where
  "retries_at w p =
     (case lookup w p of
        Some ino \<Rightarrow> (case content ino of Some (YMap kvs) \<Rightarrow> map_of kvs ''retries'' | _ \<Rightarrow> None)
      | None \<Rightarrow> None)"

text \<open>
  A long-running task. The four directories are empty and session \<^verbatim>\<open>s1\<close>, process 100 on
  the local host, is alive: \<^verbatim>\<open>/proc/100\<close> exists and its heartbeat is fresh at the time of
  the recovery. The first two clock readings (creation and claim) give 0 (\<^verbatim>\<open>T0\<close>), the
  later ones 2000 s (\<^verbatim>\<open>T1\<close>), more than the window of 900 s after the claim. The run
  creates \<^verbatim>\<open>a.yaml\<close>, claims it with \<open>get_next_task\<close> and \<open>move_to_in_progress\<close>, lets another
  scheduler run \<open>recover_stale_tasks\<close>, and then completes the task with the handle that
  \<open>move_to_in_progress\<close> returned.
\<close>

definition world_c1 :: world where
  "world_c1 = world0\<lparr>clock := (\<lambda>n. if n < 2 then 0 else 2000000000),
     isoformat := (\<lambda>t. if t = 0 then ''T0'' else ''T1''),
     fromisoformat := (\<lambda>s. if s = ''T0'' then Some (Naive 0)
                           else if s = ''T1'' then Some (Naive 2000000000) else None),
     procfs := (\<lambda>n. n = 100),
     dirs := (\<lambda>d.
       if d = Status
       then Some [(''s1.heartbeat'',
                   \<lparr>mtime = 2000000000,
                    content = Some (YMap [(''session_id'', YStr ''s1''), (''last_beat'', YStr ''T1'')])\<rparr>)]
       else if d = Outside then None
       else Some [])\<rparr>"

definition tm0 :: task_manager where
  "tm0 = \<lparr>tm_process_id = 100, tm_session_id = ''s1''\<rparr>"

definition claimed_c1 :: "(exn + task option) \<times> world" where
  "claimed_c1 =
     bind (create_task tm0 [] (Some ''a'')) (\<lambda>_.
     bind (get_next_task sched0 False) (\<lambda>t.
     move_to_in_progress sched0 t)) world_c1"

definition recovered_c1 :: "(exn + nat) \<times> world" where
  "recovered_c1 = recover_stale_tasks 900000000 ''s2'' ''alpha'' (snd claimed_c1)"

definition completed_c1 :: "(exn + bool) \<times> world" where
  "completed_c1 =
     (case fst claimed_c1 of
        Inl e \<Rightarrow> (Inl e, snd recovered_c1)
      | Inr t \<Rightarrow> move_to_done sched0 t True YNone YNone (snd recovered_c1))"

section \<open>The process probe (C3)\<close>

text \<open>
  C3. The docstring of \<open>is_process_running\<close> promises \<open>True\<close> when the process is running
  on the expected host, and a zero signal refused with permission denied means that
  the process exists. The code answers \<open>False\<close> for it: \<^verbatim>\<open>PermissionError\<close> stands in the
  same \<^verbatim>\<open>except\<close> clause as \<^verbatim>\<open>ProcessLookupError\<close>, which returns \<open>False\<close>. In
  \<open>world_eperm\<close> process 4242 exists, \<^verbatim>\<open>/proc/4242\<close> is not shown, the signal is refused
  and the host argument is absent.
\<close>

theorem is_process_running_false_on_permission_denied:
  "kill0 world_eperm 4242 = Some PermissionError \<and>
   procfs world_eperm 4242 = False \<and>
   is_process_running world_eperm (YInt 4242) YNone = False \<and>
   is_process_running world_eperm (YInt 4242) (YStr ''alpha'') = False"
  by (simp add: is_process_running_def py_int_def world_eperm_def world0_def)

text \<open>
  What the probe computes on the local host (the host argument is absent, empty or the
  local host name): it answers \<open>True\<close> exactly when the pid converts to a positive integer
  and either \<^verbatim>\<open>/proc/<pid>\<close> exists or the zero signal is delivered. Hence an invalid or
  non-positive pid gives \<open>False\<close>.
\<close>

lemma is_process_running_local:
  assumes "\<not> truthy host \<or> host = YStr (gethostname w)"
  shows "is_process_running w pid host \<longleftrightarrow>
           (\<exists>n. py_int w pid = Inr n \<and> 0 < n \<and> (procfs w n \<or> kill0 w n = None))"
  using assms
  by (auto simp: is_process_running_def split: sum.splits option.splits)

lemma is_process_running_invalid_pid:
  "is_process_running world_eperm (YInt 0) YNone = False \<and>
   is_process_running world_eperm (YInt (- 3)) YNone = False \<and>
   is_process_running world_eperm (YStr ''x'') YNone = False \<and>
   is_process_running world_eperm YNone YNone = False"
  by (simp add: is_process_running_def py_int_def world_eperm_def world0_def)

section \<open>Laws of the computations and of the system calls\<close>

lemma bind_ret: "bind (ret x) f = f x" by (simp add: bind_def ret_def)

lemma bind_raise: "bind (raise e) f = raise e" by (simp add: bind_def raise_def)

lemma bind_lift_Inr: "bind (lift (Inr x)) f = f x" by (simp add: bind_def lift_def)

lemma bind_lift_Inl: "bind (lift (Inl e)) f = raise e" by (simp add: bind_def lift_def raise_def)

lemma try_ret: "try_except (ret x) h = ret x" by (simp add: try_except_def ret_def)

lemma try_raise: "try_except (raise e) h = h e" by (simp add: try_except_def raise_def)

lemma try_lift_Inr: "try_except (lift (Inr x)) h = ret x" by (simp add: try_except_def lift_def ret_def)

lemma try_lift_Inl: "try_except (lift (Inl e)) h = h e" by (simp add: try_except_def lift_def)

lemma bind_Inr: "m w = (Inr x, w') \<Longrightarrow> bind m f w = f x w'" by (simp add: bind_def)


lemma try_Inr: "m w = (Inr x, w') \<Longrightarrow> try_except m h w = (Inr x, w')" by (simp add: try_except_def)

lemma try_Inl: "m w = (Inl e, w') \<Longrightarrow> try_except m h w = h e w'" by (simp add: try_except_def)

lemma bind_now: "bind datetime_now f w = f (clock w (reads w)) (w\<lparr>reads := Suc (reads w)\<rparr>)"
  by (simp add: bind_def datetime_now_def)

lemma bind_iso: "bind (iso t) f w = f (isoformat w t) w"
  by (simp add: bind_def iso_def)

lemmas io_simps = bind_ret bind_raise bind_lift_Inr bind_lift_Inl try_ret try_raise
  try_lift_Inr try_lift_Inl bind_now bind_iso

lemma py_get_map: "py_get (YMap kvs) k d = Inr (case map_of kvs k of None \<Rightarrow> d | Some v \<Rightarrow> v)"
  by (simp add: py_get_def)

lemma py_setitem_map: "py_setitem (YMap kvs) k v = Inr (YMap (AList.update k v kvs))"
  by (simp add: py_setitem_def)

lemma duration_try:
  assumes "reads w1 = Suc (reads w)" "clock w1 = clock w" "fromisoformat w1 = fromisoformat w"
  shows "\<exists>w2. try_except
             (bind (lift (py_get (YMap k4) ''started_at'' YNone)) (\<lambda>sa.
              bind (dt_fromisoformat sa) (\<lambda>start.
              bind datetime_now (\<lambda>t2.
              bind (lift (dt_sub t2 start)) (\<lambda>delta.
              lift (py_setitem (YMap k4) ''duration_seconds'' (YSeconds delta)))))))
             (\<lambda>_. lift (py_setitem (YMap k4) ''duration_seconds'' (YInt 0))) w1 =
          (Inr (YMap (AList.update ''duration_seconds'' (duration_of w k4) k4)), w2)"
proof (cases "started_of w k4")
  case None
  then show ?thesis using assms
    by (auto simp: started_of_def duration_of_def io_simps py_get_map py_setitem_map
        dt_fromisoformat_def try_except_def bind_def lift_def dt_sub_def datetime_now_def
        split: option.splits yval.splits pydatetime.splits)
next
  case (Some st)
  then show ?thesis using assms
    by (auto simp: started_of_def duration_of_def io_simps py_get_map py_setitem_map
        dt_fromisoformat_def try_except_def bind_def lift_def dt_sub_def datetime_now_def
        split: option.splits yval.splits pydatetime.splits)
qed

lemma mark_completed_stores:
  assumes "data t = YMap kvs"
  shows "\<exists>t' w'. mark_completed t success results err w = (Inr t', w') \<and>
           py_get (data t') ''completed_at'' YNone = Inr (YStr (isoformat w (clock w (reads w)))) \<and>
           py_get (data t') ''duration_seconds'' YNone = Inr (duration_of w kvs)"
proof -
  let ?k4 = "AList.update ''error'' err (AList.update ''results'' results
              (AList.update ''success'' (YBool success)
                (AList.update ''completed_at'' (YStr (isoformat w (clock w (reads w)))) kvs)))"
  let ?w1 = "w\<lparr>reads := Suc (reads w)\<rparr>"
  have s: "started_of w ?k4 = started_of w kvs"
    by (simp add: started_of_def update_conv')
  obtain w2 where w2: "try_except
             (bind (lift (py_get (YMap ?k4) ''started_at'' YNone)) (\<lambda>sa.
              bind (dt_fromisoformat sa) (\<lambda>start.
              bind datetime_now (\<lambda>t2.
              bind (lift (dt_sub t2 start)) (\<lambda>delta.
              lift (py_setitem (YMap ?k4) ''duration_seconds'' (YSeconds delta)))))))
             (\<lambda>_. lift (py_setitem (YMap ?k4) ''duration_seconds'' (YInt 0))) ?w1 =
          (Inr (YMap (AList.update ''duration_seconds'' (duration_of w ?k4) ?k4)), w2)"
    using duration_try [of ?w1 w ?k4] by auto
  have d: "duration_of w ?k4 = duration_of w kvs"
    by (simp add: duration_of_def s)
  show ?thesis
    using assms w2
    by (simp add: mark_completed_def io_simps py_setitem_map py_get_map bind_Inr ret_def
        update_conv' d)
qed

lemma lookup_put_file:
  "lookup (put_file p f w) q = (if dir_exists w (fst p) \<and> q = p then Some f else lookup w q)"
  by (cases p; cases q) (auto simp: lookup_def put_file_def dir_exists_def update_conv' split: option.splits)


lemma dir_exists_put_file [simp]: "dir_exists (put_file p f w) d = dir_exists w d"
  by (auto simp: put_file_def dir_exists_def split: option.splits)

lemma dir_exists_del_file [simp]: "dir_exists (del_file p w) d = dir_exists w d"
  by (auto simp: del_file_def dir_exists_def split: option.splits)

lemma put_file_fields [simp]:
  "faults (put_file p f w) = faults w" "clock (put_file p f w) = clock w"
  "reads (put_file p f w) = reads w" "gethostname (put_file p f w) = gethostname w"
  "getpid (put_file p f w) = getpid w" "procfs (put_file p f w) = procfs w"
  "kill0 (put_file p f w) = kill0 w" "fromisoformat (put_file p f w) = fromisoformat w"
  "isoformat (put_file p f w) = isoformat w" "int_of_str (put_file p f w) = int_of_str w"
  "auto_task_id (put_file p f w) = auto_task_id w" "resolve (put_file p f w) = resolve w"
  "float_add1 (put_file p f w) = float_add1 w"
  by (simp_all add: put_file_def split: option.splits)

lemma del_file_fields [simp]:
  "faults (del_file p w) = faults w" "clock (del_file p w) = clock w"
  "reads (del_file p w) = reads w" "gethostname (del_file p w) = gethostname w"
  "getpid (del_file p w) = getpid w" "procfs (del_file p w) = procfs w"
  "kill0 (del_file p w) = kill0 w" "fromisoformat (del_file p w) = fromisoformat w"
  "isoformat (del_file p w) = isoformat w" "int_of_str (del_file p w) = int_of_str w"
  "auto_task_id (del_file p w) = auto_task_id w" "resolve (del_file p w) = resolve w"
  "float_add1 (del_file p w) = float_add1 w"
  by (simp_all add: del_file_def split: option.splits)

lemma reads_upd [simp]:
  "lookup (w\<lparr>reads := n\<rparr>) = lookup w" "dir_exists (w\<lparr>reads := n\<rparr>) = dir_exists w"
  by (auto simp: lookup_def dir_exists_def fun_eq_iff)

lemma fault_nil: "faults w = [] \<Longrightarrow> fault w = (Inr False, w)"
  by (simp add: fault_def)

lemma os_call_nil: "faults w = [] \<Longrightarrow> os_call m w = m w"
  by (simp add: os_call_def bind_def fault_nil)

lemma path_call_nil:
  "faults w = [] \<Longrightarrow> path_call ns m w = (if list_ex has_nul ns then (Inl ValueError, w) else m w)"
  by (simp add: path_call_def os_call_nil raise_def)

lemma open_read_nil:
  "faults w = [] \<Longrightarrow> open_read p w =
     (if has_nul (snd p) then (Inl ValueError, w)
      else case lookup w p of None \<Rightarrow> (Inl OSError, w) | Some f \<Rightarrow> (Inr (content f), w))"
  by (simp add: open_read_def path_call_nil)



lemma os_listdir_nil:
  "faults w = [] \<Longrightarrow> os_listdir d w =
     (case dirs w d of None \<Rightarrow> (Inl OSError, w) | Some es \<Rightarrow> (Inr (map fst es), w))"
  by (simp add: os_listdir_def os_call_nil)

lemma get_yaml_files_nil: "faults w = [] \<Longrightarrow> get_yaml_files d w = (Inr (visible_names w d), w)"
  by (auto simp: get_yaml_files_def dir_exists_def visible_names_def bind_def os_listdir_nil ret_def
      split: option.splits)



lemma reads_id: "w\<lparr>reads := reads w\<rparr> = w" by simp

lemma ro_pure: "(\<And>w. snd (m w) = w) \<Longrightarrow> ro m"
  unfolding ro_def by (metis reads_id)

lemma ro_ret [simp]: "ro (ret x)" by (rule ro_pure) (simp add: ret_def)

lemma ro_raise [simp]: "ro (raise x)" by (rule ro_pure) (simp add: raise_def)

lemma ro_lift [simp]: "ro (lift x)" by (rule ro_pure) (simp add: lift_def)

lemma ro_iso [simp]: "ro (iso x)" by (rule ro_pure) (simp add: iso_def)

lemma ro_now [simp]: "ro datetime_now"
  unfolding ro_def datetime_now_def by auto

lemma ro_bind: "ro m \<Longrightarrow> (\<And>x. ro (f x)) \<Longrightarrow> ro (bind m f)"
proof (unfold ro_def, intro allI impI)
  fix w :: world assume m: "\<forall>w. faults w = [] \<longrightarrow> (\<exists>n. snd (m w) = w\<lparr>reads := n\<rparr>)"
    and f: "\<And>x. \<forall>w. faults w = [] \<longrightarrow> (\<exists>n. snd (f x w) = w\<lparr>reads := n\<rparr>)" and w: "faults w = []"
  from m w obtain n where n: "snd (m w) = w\<lparr>reads := n\<rparr>" by blast
  show "\<exists>n. snd (bind m f w) = w\<lparr>reads := n\<rparr>"
  proof (cases "fst (m w)")
    case (Inl e)
    with n have "m w = (Inl e, w\<lparr>reads := n\<rparr>)" by (metis prod.collapse)
    then show ?thesis by (auto simp: bind_def)
  next
    case (Inr x)
    with n have mw: "m w = (Inr x, w\<lparr>reads := n\<rparr>)" by (metis prod.collapse)
    from f [of x] w obtain k where "snd (f x (w\<lparr>reads := n\<rparr>)) = w\<lparr>reads := n\<rparr>\<lparr>reads := k\<rparr>"
      by (metis world.select_convs(2) world.surjective world.update_convs(4))
    with mw show ?thesis by (auto simp: bind_def)
  qed
qed

lemma ro_try: "ro m \<Longrightarrow> (\<And>e. ro (h e)) \<Longrightarrow> ro (try_except m h)"
proof (unfold ro_def, intro allI impI)
  fix w :: world assume m: "\<forall>w. faults w = [] \<longrightarrow> (\<exists>n. snd (m w) = w\<lparr>reads := n\<rparr>)"
    and f: "\<And>x. \<forall>w. faults w = [] \<longrightarrow> (\<exists>n. snd (h x w) = w\<lparr>reads := n\<rparr>)" and w: "faults w = []"
  from m w obtain n where n: "snd (m w) = w\<lparr>reads := n\<rparr>" by blast
  show "\<exists>n. snd (try_except m h w) = w\<lparr>reads := n\<rparr>"
  proof (cases "fst (m w)")
    case (Inr e)
    with n have "m w = (Inr e, w\<lparr>reads := n\<rparr>)" by (metis prod.collapse)
    then show ?thesis by (auto simp: try_except_def)
  next
    case (Inl x)
    with n have mw: "m w = (Inl x, w\<lparr>reads := n\<rparr>)" by (metis prod.collapse)
    from f [of x] w obtain k where "snd (h x (w\<lparr>reads := n\<rparr>)) = w\<lparr>reads := n\<rparr>\<lparr>reads := k\<rparr>"
      by (metis world.select_convs(2) world.surjective world.update_convs(4))
    with mw show ?thesis by (auto simp: try_except_def)
  qed
qed

lemma ro_fun: "(\<And>w. faults w = [] \<Longrightarrow> \<exists>r. m w = (r, w)) \<Longrightarrow> ro m"
  unfolding ro_def by (metis reads_id snd_conv)

lemma ro_open_read [simp]: "ro (open_read p)"
  by (rule ro_fun) (auto simp: open_read_nil split: option.splits)



lemma ro_yaml [simp]: "ro (yaml_safe_load t)"
  by (cases t) (simp_all add: yaml_safe_load_def)

lemma ro_syaml [simp]: "ro (scheduler_yaml_safe_load t)"
  by (simp_all add: scheduler_yaml_safe_load_def)

lemma ro_acquire_lock [simp]: "0 < n \<Longrightarrow> ro (acquire_lock a b n)"
  by (rule ro_fun, cases n)
    (auto simp: acquire_lock_def os_call_nil bind_def ret_def raise_def try_except_if_def
      lock_acquire_def fault_nil)

lemma ro_get_yaml_files [simp]: "ro (get_yaml_files d)"
  by (rule ro_fun) (auto simp: get_yaml_files_nil)

lemma ro_dt_fromisoformat [simp]: "ro (dt_fromisoformat x)"
  by (rule ro_fun) (auto simp: dt_fromisoformat_def split: yval.splits option.splits)

lemma ro_if: "ro a \<Longrightarrow> ro b \<Longrightarrow> ro (if c then a else b)" by simp

lemma ro_case_option: "ro a \<Longrightarrow> (\<And>x. ro (b x)) \<Longrightarrow> ro (case c of None \<Rightarrow> a | Some x \<Rightarrow> b x)"
  by (cases c) auto

lemma ro_case_list: "ro a \<Longrightarrow> (\<And>x xs. ro (b x xs)) \<Longrightarrow> ro (case c of [] \<Rightarrow> a | x # xs \<Rightarrow> b x xs)"
  by (cases c) auto

lemma ro_if_w: "ro a \<Longrightarrow> ro b \<Longrightarrow> ro (\<lambda>w. if P w then a w else b w)"
  unfolding ro_def by auto

lemma ro_pair: "ro (\<lambda>w. (Inr x, w))" using ro_ret [of x] by (simp add: ret_def)

lemmas ro_intros = ro_bind ro_try ro_if ro_case_option ro_case_list

lemma ro_from_file [simp]: "ro (from_file p)"
  unfolding from_file_def by (intro ro_intros) simp_all

lemma ro_get_task_priority [simp]: "ro (get_task_priority f)"
  unfolding get_task_priority_def by (intro ro_intros) simp_all

lemma ro_priority_keys [simp]: "ro (priority_keys fs)"
proof (induction fs)
  case Nil show ?case by simp
next
  case (Cons f fs)
  show ?case unfolding priority_keys.simps
    by (intro ro_bind ro_get_task_priority Cons ro_ret)
qed

lemma ro_mark_started [simp]: "ro (mark_started t a b c)"
  unfolding mark_started_def by (intro ro_intros) simp_all

lemma ro_mark_completed [simp]: "ro (mark_completed t a b c)"
  unfolding mark_completed_def by (intro ro_intros) simp_all




lemma ro_classify_stale [simp]: "ro (classify_stale t a d)"
  unfolding classify_stale_def
  apply (intro ro_bind ro_lift ro_if ro_ret)
  apply (rule ro_if_w, rule ro_pair)
  apply (rule ro_if_w)
   apply (intro ro_try ro_bind ro_lift ro_ret ro_dt_fromisoformat ro_now)
  apply (rule ro_pair)
  done

lemma bind_syaml: "bind (scheduler_yaml_safe_load txt) f = raise NameError"
  by (simp add: scheduler_yaml_safe_load_def bind_raise)

lemma ro_report_progress [simp]: "ro (report_progress S t p m)"
  unfolding report_progress_def bind_syaml
  by (intro ro_intros) simp_all





lemma pres_raise [simp]: "pres I (raise x)" by (simp add: pres_def raise_def)


lemma pres_if_w: "pres I a \<Longrightarrow> pres I b \<Longrightarrow> pres I (\<lambda>w. if P w then a w else b w)"
  unfolding pres_def by auto

lemma visible_names_reads [simp]: "visible_names (w\<lparr>reads := n\<rparr>) = visible_names w"
  by (simp add: visible_names_def fun_eq_iff)










lemma try_len_nil:
  "m w = (Inr fs, w') \<Longrightarrow> try_len m w = (Inr (length fs), w')"
  "m w = (Inl e, w') \<Longrightarrow> try_len m w = (Inr 0, w')"
  by (simp_all add: try_len_def try_except_def bind_def ret_def)

lemma count_tasks_nil:
  assumes "faults w = []"
  shows "count_tasks w =
    (Inr \<lparr>n_todo = length (visible_names w Todo),
          n_in_progress = length (visible_names w InProgress),
          n_done = length (visible_names w Done),
          n_corrupted = (case dirs w Corrupted of None \<Rightarrow> 0 | Some es \<Rightarrow> length es)\<rparr>, w)"
proof -
  have c: "try_len (os_listdir Corrupted) w =
      (Inr (case dirs w Corrupted of None \<Rightarrow> 0 | Some es \<Rightarrow> length es), w)"
    using assms by (cases "dirs w Corrupted") (simp_all add: try_len_nil os_listdir_nil)
  show ?thesis
    using assms c
    by (simp add: count_tasks_def bind_Inr try_len_nil(1) [OF get_yaml_files_nil] ret_def)
qed










section \<open>Claiming the next task (C5, C10)\<close>



text \<open>
  C5, at the input of the specification's scenario. \<^verbatim>\<open>todo/\<close> lists tasks of priorities
  1, 10 and 3. Every key that \<open>_get_task_priority\<close> computes is 0, because the
  \<^verbatim>\<open>NameError\<close> of the unbound name \<^verbatim>\<open>yaml\<close> is caught by its handler; the stable sort
  leaves the listing as it is, and the task returned is the first listed, of priority 1,
  not the one of priority 10.
\<close>

theorem get_next_task_takes_first_listed:
  "fst (get_next_task sched0 False world_c5) =
     Inr (Some \<lparr>filename = ''p1.yaml'', data = YMap [(''priority'', YInt 1)], path = (Todo, ''p1.yaml'')\<rparr>) \<and>
   fst (get_next_task sched0 True world_c5) =
     Inr (Some \<lparr>filename = ''p1.yaml'', data = YMap [(''priority'', YInt 1)], path = (Todo, ''p1.yaml'')\<rparr>) \<and>
   fst (priority_keys [''p1.yaml'', ''p10.yaml'', ''p3.yaml''] world_c5) = Inr [YInt 0, YInt 0, YInt 0]"
  by code_simp

section \<open>Directory counts (C9)\<close>

text \<open>
  C9, at an input where the code departs from it. \<^verbatim>\<open>corrupted/\<close> has no visible entry
  (a hidden transient and a file that is not \<^verbatim>\<open>.yaml\<close>), yet \<open>count_tasks\<close> reports 2 for
  it: that count is \<^verbatim>\<open>len(os.listdir(...))\<close>, while the other three go through
  \<open>get_yaml_files\<close>. The missing \<^verbatim>\<open>in_progress/\<close> counts 0.
\<close>

theorem count_tasks_counts_all_of_corrupted:
  "fst (count_tasks world_c9) = Inr \<lparr>n_todo = 1, n_in_progress = 0, n_done = 0, n_corrupted = 2\<rparr> \<and>
   visible_names world_c9 Corrupted = [] \<and> dirs world_c9 InProgress = None"
  by code_simp

section \<open>The duration stored on completion (C6)\<close>

text \<open>
  C6, as the code has it. For a task whose payload is a mapping, \<open>mark_completed\<close>
  succeeds; \<^verbatim>\<open>completed_at\<close> is the first clock reading, and \<^verbatim>\<open>duration_seconds\<close> is the
  second clock reading minus \<^verbatim>\<open>started_at\<close> when that is a string parsing to a naive
  datetime, and the integer 0 otherwise. Nothing clamps it: the stored duration is
  negative exactly when the stored start is later than the second reading.
\<close>

theorem mark_completed_duration:
  assumes "data t = YMap kvs"
  shows "\<exists>t' w'. mark_completed t success results err w = (Inr t', w') \<and>
           py_get (data t') ''completed_at'' YNone = Inr (YStr (isoformat w (clock w (reads w)))) \<and>
           py_get (data t') ''duration_seconds'' YNone = Inr (duration_of w kvs) \<and>
           (\<exists>m. num_key (duration_of w kvs) = Some m \<and>
                (m < 0 \<longleftrightarrow> (\<exists>st. started_of w kvs = Some st \<and> clock w (Suc (reads w)) < st)))"
proof -
  have "\<exists>m. num_key (duration_of w kvs) = Some m \<and>
                (m < 0 \<longleftrightarrow> (\<exists>st. started_of w kvs = Some st \<and> clock w (Suc (reads w)) < st))"
    by (cases "started_of w kvs") (simp_all add: duration_of_def num_key_def)
  with mark_completed_stores [OF assms, of success results err w] show ?thesis by blast
qed

text \<open>An instance: started at 40, completed with the clock at 50 and 51.\<close>

theorem mark_completed_duration_witness:
  "data task_c6_early = YMap [(''started_at'', YStr ''T40'')] \<and>
   started_of world_c6 [(''started_at'', YStr ''T40'')] = Some 40 \<and>
   duration_of world_c6 [(''started_at'', YStr ''T40'')] = YSeconds 11 \<and>
   (\<exists>t' w'. mark_completed task_c6_early True YNone YNone world_c6 = (Inr t', w') \<and>
      py_get (data t') ''completed_at'' YNone = Inr (YStr ''t'') \<and>
      py_get (data t') ''duration_seconds'' YNone = Inr (YSeconds 11))"
proof -
  have d: "data task_c6_early = YMap [(''started_at'', YStr ''T40'')]" by code_simp
  have s: "started_of world_c6 [(''started_at'', YStr ''T40'')] = Some 40" by code_simp
  have u: "duration_of world_c6 [(''started_at'', YStr ''T40'')] = YSeconds 11" by code_simp
  have i: "isoformat world_c6 (clock world_c6 (reads world_c6)) = ''t''" by code_simp
  show ?thesis
    using mark_completed_duration [OF d, of True YNone YNone world_c6] d s
    unfolding u i by blast
qed

text \<open>
  The claim as stated fails: \<^verbatim>\<open>in_progress/a.yaml\<close> carries the start time 100, the clock
  reads 50 and 51 during \<open>move_to_done\<close>, and the record written to \<^verbatim>\<open>done/\<close> has the
  duration \<open>- 49\<close>.
\<close>

theorem move_to_done_negative_duration_counterexample:
  "fst (move_to_done sched0 (Some task_c6) True YNone YNone world_c6) = Inr True \<and>
   map_option content
     (lookup (snd (move_to_done sched0 (Some task_c6) True YNone YNone world_c6)) (Done, ''a.yaml'')) =
     Some (Some (YMap
       [(''started_at'', YStr ''T100''), (''completed_at'', YStr ''t''), (''success'', YBool True),
        (''results'', YNone), (''error'', YNone), (''duration_seconds'', YSeconds (- 49))]))"
  by code_simp


section \<open>Heartbeats and the staleness test\<close>

lemma py_get_field: "py_get (YMap kvs) k YNone = Inr (field_of kvs k)"
  by (simp add: py_get_def field_of_def)

lemma os_getmtime_nil:
  "faults w = [] \<Longrightarrow> os_getmtime p w =
     (if has_nul (snd p) then (Inl ValueError, w)
      else case lookup w p of None \<Rightarrow> (Inl OSError, w) | Some f \<Rightarrow> (Inr (mtime f), w))"
  by (simp add: os_getmtime_def path_call_nil)

lemma heartbeat_session_nil:
  assumes "faults w = []"
  shows "try_except (heartbeat_session tmo now file) (\<lambda>_. ret None) w =
           (Inr (heartbeat_key w tmo now file), w)"
proof (cases "has_nul file")
  case True
  then show ?thesis using assms
    by (simp add: heartbeat_session_def heartbeat_key_def try_except_def bind_def os_getmtime_nil
        ret_def)
next
  case nn: False
  show ?thesis
proof (cases "lookup w (Status, file)")
  case None
  then show ?thesis using assms nn
    by (simp add: heartbeat_session_def heartbeat_key_def try_except_def bind_def os_getmtime_nil ret_def)
next
  case (Some ino)
  show ?thesis
  proof (cases "now - mtime ino > tmo")
    case True
    then show ?thesis using assms Some nn
      by (simp add: heartbeat_session_def heartbeat_key_def try_except_def bind_def os_getmtime_nil ret_def)
  next
    case False
    have g: "os_getmtime (Status, file) w = (Inr (mtime ino), w)"
      using assms Some nn by (simp add: os_getmtime_nil)
    have r: "open_read (Status, file) w = (Inr (content ino), w)"
      using assms Some nn by (simp add: open_read_nil)
    have nm: "\<And>v. (\<forall>kvs. v \<noteq> YMap kvs) \<Longrightarrow> py_get v ''last_beat'' YNone = Inl AttributeError"
      by (simp add: py_get_def split: yval.splits)
    show ?thesis
    proof (cases "content ino")
      case None
      then show ?thesis using False Some g r nn
        by (simp add: try_except_def heartbeat_session_def heartbeat_key_def bind_Inr
            yaml_safe_load_def io_simps) (simp add: raise_def ret_def)
    next
      case (Some v)
      note v = this
      show ?thesis
      proof (cases "\<exists>kvs. v = YMap kvs")
        case False
        then have "py_get v ''last_beat'' YNone = Inl AttributeError" using nm by blast
        then show ?thesis using \<open>\<not> now - mtime ino > tmo\<close> \<open>lookup w (Status, file) = Some ino\<close> g r v False nn
          by (cases v)
             (simp_all add: try_except_def heartbeat_session_def heartbeat_key_def bind_Inr
              yaml_safe_load_def io_simps, simp_all add: raise_def ret_def)
      next
        case True
        then obtain kvs where kvs: "v = YMap kvs" by blast
        show ?thesis
          using \<open>\<not> now - mtime ino > tmo\<close> \<open>lookup w (Status, file) = Some ino\<close> g r v kvs nn
          apply (simp add: try_except_def heartbeat_session_def heartbeat_key_def bind_Inr
              yaml_safe_load_def io_simps py_get_field)
          apply (cases "field_of kvs ''last_beat''")
                apply (simp_all add: io_simps py_get_field try_except_def raise_def ret_def
              dt_fromisoformat_def bind_def lift_def dt_sub_def
              split: option.splits pydatetime.splits sum.splits)
          done
      qed
    qed
  qed
qed
qed

lemma active_loop_nil:
  assumes "faults w = []"
  shows "\<exists>act. active_loop tmo now fs acc w = (Inr act, w) \<and>
           set act = set acc \<union>
             {k. \<exists>file \<in> set fs. endswith file ''.heartbeat'' \<and> heartbeat_key w tmo now file = Some k}"
proof (induction fs arbitrary: acc)
  case Nil
  show ?case by (simp add: ret_def)
next
  case (Cons f fs)
  show ?case
  proof (cases "endswith f ''.heartbeat''")
    case False
    then show ?thesis using Cons [of acc] by auto
  next
    case True
    let ?acc = "case heartbeat_key w tmo now f of None \<Rightarrow> acc | Some k \<Rightarrow> List.insert k acc"
    from Cons [of ?acc] obtain act where
      a: "active_loop tmo now fs ?acc w = (Inr act, w)" and
      s: "set act = set ?acc \<union>
             {k. \<exists>file \<in> set fs. endswith file ''.heartbeat'' \<and> heartbeat_key w tmo now file = Some k}"
      by blast
    have "active_loop tmo now (f # fs) acc w = (Inr act, w)"
      using True a heartbeat_session_nil [OF assms, of tmo now f] by (simp add: bind_Inr)
    moreover have "set act = set acc \<union>
             {k. \<exists>file \<in> set (f # fs). endswith file ''.heartbeat'' \<and> heartbeat_key w tmo now file = Some k}"
      using s True by (auto split: option.splits)
    ultimately show ?thesis by blast
  qed
qed

lemma heartbeat_key_reads [simp]:
  "heartbeat_key (w\<lparr>reads := n\<rparr>) tmo now file = heartbeat_key w tmo now file"
  by (simp add: heartbeat_key_def cong: option.case_cong yval.case_cong if_cong)

lemma get_active_sessions_nil:
  assumes "faults w = []"
  shows "\<exists>act. get_active_sessions tmo w = (Inr act, w\<lparr>reads := Suc (reads w)\<rparr>) \<and>
           set act = expected_active w tmo"
proof (cases "dirs w Status")
  case None
  then show ?thesis
    by (simp add: get_active_sessions_def bind_now dir_exists_def expected_active_def status_listing_def)
next
  case (Some es)
  let ?w = "w\<lparr>reads := Suc (reads w)\<rparr>"
  have f: "faults ?w = []" using assms by simp
  have l: "os_listdir Status ?w = (Inr (map fst es), ?w)"
    using Some f by (simp add: os_listdir_nil)
  obtain act where a: "active_loop tmo (clock w (reads w)) (map fst es) [] ?w = (Inr act, ?w)"
    and s: "set act = set [] \<union> {k. \<exists>file \<in> set (map fst es). endswith file ''.heartbeat'' \<and>
              heartbeat_key ?w tmo (clock w (reads w)) file = Some k}"
    using active_loop_nil [OF f] by blast
  have "get_active_sessions tmo w = (Inr act, ?w)"
    using Some l a by (simp add: get_active_sessions_def bind_now dir_exists_def try_except_def bind_Inr)
  moreover have "set act = expected_active w tmo"
    using s Some by (simp add: expected_active_def status_listing_def)
  ultimately show ?thesis by blast
qed


lemma started_try:
  "truthy (field_of kvs ''started_at'') \<Longrightarrow>
   \<exists>w'. try_except
          (bind (dt_fromisoformat (field_of kvs ''started_at'')) (\<lambda>started.
           bind datetime_now (\<lambda>now.
           bind (lift (dt_sub now started)) (\<lambda>age.
           ret (age > tmo)))))
          (\<lambda>_. ret True) w =
        (Inr (\<forall>t. started_of w kvs = Some t \<longrightarrow> tmo < clock w (reads w) - t), w')"
  apply (cases "field_of kvs ''started_at''")
        apply (simp_all add: try_except_def bind_def dt_fromisoformat_def started_of_def field_of_def
      datetime_now_def lift_def dt_sub_def ret_def
      split: option.splits pydatetime.splits yval.splits)
  done

lemma classify_stale_eq:
  assumes "truthy (field_of kvs ''session_id'') \<longrightarrow> py_key (field_of kvs ''session_id'') = Inr k"
  shows "\<exists>w'. classify_stale tmo active (YMap kvs) w =
     (Inr ((truthy (field_of kvs ''session_id'') \<and> k \<notin> set active) \<or>
           (truthy (field_of kvs ''process_id'') \<and>
              \<not> is_process_running w (field_of kvs ''process_id'') (field_of kvs ''host'')) \<or>
           (truthy (field_of kvs ''started_at'') \<and>
              (\<forall>t. started_of w kvs = Some t \<longrightarrow> tmo < clock w (reads w) - t)) \<or>
           \<not> truthy (field_of kvs ''started_at'')), w')"
proof (cases "truthy (field_of kvs ''session_id'') \<and> k \<notin> set active")
  case True
  then show ?thesis using assms
    by (simp add: classify_stale_def py_get_field io_simps) (simp add: ret_def)
next
  case False
  have o: "(if truthy (field_of kvs ''session_id'')
           then bind (lift (py_key (field_of kvs ''session_id''))) (\<lambda>k. ret (k \<notin> set active))
           else ret False) = ret False"
    using False assms by (auto simp: io_simps)
  show ?thesis
  proof (cases "truthy (field_of kvs ''process_id'') \<and>
              \<not> is_process_running w (field_of kvs ''process_id'') (field_of kvs ''host'')")
    case True
    then show ?thesis
      by (simp add: classify_stale_def py_get_field io_simps o)
  next
    case np: False
    show ?thesis
    proof (cases "truthy (field_of kvs ''started_at'')")
      case True
      from started_try [OF True, of tmo w] obtain w' where
        "try_except
          (bind (dt_fromisoformat (field_of kvs ''started_at'')) (\<lambda>started.
           bind datetime_now (\<lambda>now.
           bind (lift (dt_sub now started)) (\<lambda>age.
           ret (age > tmo)))))
          (\<lambda>_. ret True) w =
        (Inr (\<forall>t. started_of w kvs = Some t \<longrightarrow> tmo < clock w (reads w) - t), w')" by blast
      then show ?thesis using np False True
        by (auto simp add: classify_stale_def py_get_field io_simps o)
    next
      case False
      then show ?thesis using np
        by (auto simp add: classify_stale_def py_get_field io_simps o)
    qed
  qed
qed


section \<open>Staleness classification (C2)\<close>

text \<open>
  The test as the code has it. For an entry that decodes to a mapping and whose
  \<^verbatim>\<open>session_id\<close>, if truthy, is hashable with representative \<open>k\<close>, the classification
  returns stale if and only if (1) \<^verbatim>\<open>session_id\<close> is truthy and not in the active set,
  or (2) \<^verbatim>\<open>process_id\<close> is truthy and \<open>is_process_running(pid, host)\<close> is false, or
  (3) \<^verbatim>\<open>started_at\<close> is truthy and does not parse to a naive time, or parses to one older
  than the window, or (4) \<^verbatim>\<open>started_at\<close> is missing or falsy. Since
  \<open>is_process_running\<close> answers false for every host other than the local one, an entry
  with a truthy \<^verbatim>\<open>process_id\<close> and a remote \<^verbatim>\<open>host\<close> is always classified stale, whatever
  its session and start time.
\<close>

lemma classify_stale_cases:
  assumes "truthy (field_of kvs ''session_id'') \<longrightarrow> py_key (field_of kvs ''session_id'') = Inr k"
  shows "(\<exists>w'. classify_stale tmo active (YMap kvs) w =
     (Inr ((truthy (field_of kvs ''session_id'') \<and> k \<notin> set active) \<or>
           (truthy (field_of kvs ''process_id'') \<and>
              \<not> is_process_running w (field_of kvs ''process_id'') (field_of kvs ''host'')) \<or>
           (truthy (field_of kvs ''started_at'') \<and>
              (\<forall>t. started_of w kvs = Some t \<longrightarrow> tmo < clock w (reads w) - t)) \<or>
           \<not> truthy (field_of kvs ''started_at'')), w')) \<and>
    (truthy (field_of kvs ''process_id'') \<and> truthy (field_of kvs ''host'') \<and>
       field_of kvs ''host'' \<noteq> YStr (gethostname w) \<longrightarrow>
     fst (classify_stale tmo active (YMap kvs) w) = Inr True)"
proof -
  from classify_stale_eq [OF assms, of tmo active w] obtain w' where
    c: "classify_stale tmo active (YMap kvs) w =
     (Inr ((truthy (field_of kvs ''session_id'') \<and> k \<notin> set active) \<or>
           (truthy (field_of kvs ''process_id'') \<and>
              \<not> is_process_running w (field_of kvs ''process_id'') (field_of kvs ''host'')) \<or>
           (truthy (field_of kvs ''started_at'') \<and>
              (\<forall>t. started_of w kvs = Some t \<longrightarrow> tmo < clock w (reads w) - t)) \<or>
           \<not> truthy (field_of kvs ''started_at'')), w')" by blast
  have r: "truthy (field_of kvs ''host'') \<and> field_of kvs ''host'' \<noteq> YStr (gethostname w) \<Longrightarrow>
      \<not> is_process_running w (field_of kvs ''process_id'') (field_of kvs ''host'')"
    by (simp add: is_process_running_def)
  have 1: "\<exists>w'. classify_stale tmo active (YMap kvs) w =
     (Inr ((truthy (field_of kvs ''session_id'') \<and> k \<notin> set active) \<or>
           (truthy (field_of kvs ''process_id'') \<and>
              \<not> is_process_running w (field_of kvs ''process_id'') (field_of kvs ''host'')) \<or>
           (truthy (field_of kvs ''started_at'') \<and>
              (\<forall>t. started_of w kvs = Some t \<longrightarrow> tmo < clock w (reads w) - t)) \<or>
           \<not> truthy (field_of kvs ''started_at'')), w')"
    by (rule exI [of _ w']) (rule c)
  have 2: "truthy (field_of kvs ''process_id'') \<and> truthy (field_of kvs ''host'') \<and>
       field_of kvs ''host'' \<noteq> YStr (gethostname w) \<longrightarrow>
     fst (classify_stale tmo active (YMap kvs) w) = Inr True"
  proof
    assume a: "truthy (field_of kvs ''process_id'') \<and> truthy (field_of kvs ''host'') \<and>
       field_of kvs ''host'' \<noteq> YStr (gethostname w)"
    then have "\<not> is_process_running w (field_of kvs ''process_id'') (field_of kvs ''host'')"
      using r by blast
    with a show "fst (classify_stale tmo active (YMap kvs) w) = Inr True"
      unfolding c by simp
  qed
  from 1 2 show ?thesis by (rule conjI)
qed

text \<open>
  C2. A task that a live worker on another host is running is taken away from it. In
  \<open>world_c2\<close> the session \<^verbatim>\<open>s1\<close> of \<^verbatim>\<open>in_progress/a.yaml\<close> is in the active set (its
  heartbeat is fresh), the host \<^verbatim>\<open>beta\<close> of the entry is not the local host \<^verbatim>\<open>alpha\<close>, and
  its \<^verbatim>\<open>started_at\<close> is well-formed and 10 microseconds old. The second branch of the
  test calls \<open>is_process_running(pid, host)\<close>, which answers \<open>False\<close> for every remote
  host, so the entry is classified stale and republished to \<^verbatim>\<open>todo/\<close>; the
  \<^verbatim>\<open>current_hostname\<close> argument of \<open>recover_stale_tasks\<close> is never used.
\<close>

theorem recover_stale_tasks_republishes_remote_live_task:
  "fst (get_active_sessions 900000000 world_c2) = Inr [YStr ''s1''] \<and>
   field_of kvs_c2 ''session_id'' = YStr ''s1'' \<and>
   field_of kvs_c2 ''host'' = YStr ''beta'' \<and>
   gethostname world_c2 = ''alpha'' \<and>
   started_of world_c2 kvs_c2 = Some 40 \<and>
   clock world_c2 0 = 50 \<and>
   fst (classify_stale 900000000 [YStr ''s1''] (YMap kvs_c2) world_c2) = Inr True \<and>
   fst (recover_stale_tasks 900000000 ''s2'' ''alpha'' world_c2) = Inr 1 \<and>
   visible_names (snd (recover_stale_tasks 900000000 ''s2'' ''alpha'' world_c2)) InProgress = [] \<and>
   visible_names (snd (recover_stale_tasks 900000000 ''s2'' ''alpha'' world_c2)) Todo = [''a.yaml'']"
  by code_simp

text \<open>
  The same entry without a \<^verbatim>\<open>process_id\<close> is left alone: the session and the start time
  alone do not make it stale.
\<close>

lemma classify_stale_without_pid:
  "fst (classify_stale 900000000 [YStr ''s1'']
          (YMap [(''session_id'', YStr ''s1''), (''host'', YStr ''beta''),
                 (''started_at'', YStr ''T40'')]) world_c2) = Inr False"
  by code_simp

section \<open>The active session set (C4)\<close>

text \<open>
  The set as the code builds it. When no call fails, \<open>_get_active_sessions\<close> returns
  exactly the elements that the \<^verbatim>\<open>.heartbeat\<close> files of \<^verbatim>\<open>.status/\<close> contribute by
  \<open>heartbeat_key\<close>: one for each file whose mtime and decoded \<^verbatim>\<open>last_beat\<close> are both
  within the window. An unparseable record, or one without \<^verbatim>\<open>last_beat\<close>, contributes
  nothing.
\<close>

lemma get_active_sessions_elements:
  assumes "faults w = []"
  shows "\<exists>act w'. get_active_sessions tmo w = (Inr act, w') \<and> set act = expected_active w tmo"
  using get_active_sessions_nil [OF assms] by blast

text \<open>
  C4. The function is declared to return a \<^verbatim>\<open>Set[str]\<close> of session ids, and it skips a
  record without \<^verbatim>\<open>last_beat\<close> (\<^verbatim>\<open>if not beat_time_str: continue\<close>). It has no such guard
  for \<^verbatim>\<open>session_id\<close>: a record with a fresh mtime and \<^verbatim>\<open>last_beat\<close> but no \<^verbatim>\<open>session_id\<close>
  adds \<^verbatim>\<open>data.get('session_id')\<close>, which is \<^verbatim>\<open>None\<close>, and the returned set is \<^verbatim>\<open>{None}\<close>.
\<close>

theorem get_active_sessions_adds_none:
  "status_listing world_c4 = [''anon.heartbeat''] \<and>
   lookup world_c4 (Status, ''anon.heartbeat'') =
     Some \<lparr>mtime = 45, content = Some (YMap [(''last_beat'', YStr ''T40'')])\<rparr> \<and>
   clock world_c4 0 = 50 \<and>
   fromisoformat world_c4 ''T40'' = Some (Naive 40) \<and>
   fst (get_active_sessions 900000000 world_c4) = Inr [YNone]"
  by code_simp

section \<open>Failures that the handlers contain\<close>

lemma noraise_ret [simp]: "noraise (ret x)" by (simp add: noraise_def ret_def)
lemma noraise_now [simp]: "noraise datetime_now" by (simp add: noraise_def datetime_now_def)
lemma noraise_iso [simp]: "noraise (iso t)" by (simp add: noraise_def iso_def)
lemma noraise_pair [simp]: "noraise (\<lambda>w. (Inr x, w))" by (simp add: noraise_def)

lemma noraiseD: "noraise m \<Longrightarrow> \<exists>x w'. m w = (Inr x, w')"
  by (simp add: noraise_def)

lemma noraise_bind: "noraise m \<Longrightarrow> (\<And>x. noraise (f x)) \<Longrightarrow> noraise (bind m f)"
  unfolding noraise_def bind_def
  by (metis (mono_tags, lifting) old.sum.simps(6) case_prod_conv)

lemma noraise_try: "(\<And>e. noraise (h e)) \<Longrightarrow> noraise (try_except m h)"
  unfolding noraise_def try_except_def
proof
  fix w assume h: "\<And>e. \<forall>w. \<exists>x w'. h e w = (Inr x, w')"
  show "\<exists>x w'. (case m w of (Inl e, w') \<Rightarrow> h e w' | (Inr x, w') \<Rightarrow> (Inr x, w')) = (Inr x, w')"
  proof (cases "m w")
    case (Pair r w1)
    then show ?thesis using h by (cases r) auto
  qed
qed

lemma noraise_if_w: "noraise a \<Longrightarrow> noraise b \<Longrightarrow> noraise (\<lambda>w. if P w then a w else b w)"
  unfolding noraise_def by auto

lemma noraise_try_if:
  "(\<And>w e. fst (m w) = Inl e \<Longrightarrow> c e) \<Longrightarrow> (\<And>e. noraise (h e)) \<Longrightarrow> noraise (try_except_if c m h)"
  unfolding noraise_def try_except_if_def
proof
  fix w assume c: "\<And>w e. fst (m w) = Inl e \<Longrightarrow> c e" and h: "\<And>e. \<forall>w. \<exists>x w'. h e w = (Inr x, w')"
  show "\<exists>x w'. (case m w of (Inl e, w') \<Rightarrow> if c e then h e w' else (Inl e, w')
                | (Inr x, w') \<Rightarrow> (Inr x, w')) = (Inr x, w')"
  proof (cases "m w")
    case (Pair r w1)
    then show ?thesis using h c [of w] by (cases r) auto
  qed
qed

text \<open>
  \<^verbatim>\<open>os.rename\<close> raises an \<^verbatim>\<open>OSError\<close> or, for a name with a NUL character, \<^verbatim>\<open>ValueError\<close>;
  \<open>safe_rename\<close> lets the second through and swallows the first.
\<close>

lemma os_rename_raises:
  "\<not> has_nul (snd a) \<Longrightarrow> \<not> has_nul (snd b) \<Longrightarrow> fst (os_rename a b w) = Inl e \<Longrightarrow> is_OSError e"
  by (auto simp: os_rename_def path_call_def os_call_def bind_def fault_def raise_def
      split: list.splits option.splits if_splits)

lemma os_rename_nul:
  "has_nul (snd a) \<or> has_nul (snd b) \<Longrightarrow> safe_rename a b w = (Inl ValueError, w)"
  by (auto simp: safe_rename_def try_except_if_def os_rename_def path_call_def raise_def)

lemma noraise_safe_rename:
  assumes "\<not> has_nul (snd a)" "\<not> has_nul (snd b)"
  shows "noraise (safe_rename a b)"
  unfolding safe_rename_def
  by (intro noraise_try_if noraise_try noraise_ret) (rule os_rename_raises [OF assms])

lemma noraise_try_remove [simp]: "noraise (try_remove p)"
  unfolding try_remove_def by (intro noraise_try noraise_ret)

lemma noraise_cleanup [simp]: "noraise (cleanup_temp_files d older)"
  unfolding cleanup_temp_files_def
  by (rule noraise_if_w, rule noraise_pair, rule noraise_try, rule noraise_ret)

lemma noraise_get_active_sessions [simp]: "noraise (get_active_sessions tmo)"
  unfolding get_active_sessions_def
  apply (rule noraise_bind, rule noraise_now)
  apply (rule noraise_if_w, rule noraise_pair, rule noraise_try, rule noraise_ret)
  done

lemma noraise_recover_loop [simp]: "noraise (recover_loop tmo act fs c)"
proof (induction fs arbitrary: c)
  case Nil show ?case by simp
next
  case (Cons f fs)
  show ?case unfolding recover_loop.simps
    by (intro noraise_bind noraise_try noraise_ret Cons)
qed

text \<open>
  Four of the operations return a value for every input and every course of failing
  calls: all that can raise in them stands inside a \<^verbatim>\<open>try\<close> whose handler cannot raise.
\<close>

lemma noraise_recover_stale_tasks [simp]: "noraise (recover_stale_tasks tmo a b)"
  unfolding recover_stale_tasks_def
  by (intro noraise_bind noraise_get_active_sessions noraise_try noraise_ret)

lemma noraise_get_next_task [simp]: "noraise (get_next_task S cs)"
  unfolding get_next_task_def
  by (cases "shutdown S"; cases cs)
     (simp_all add: noraise_bind noraise_try)

lemma noraise_report_progress [simp]: "noraise (report_progress S t a b)"
  unfolding report_progress_def
  by (cases t) (simp_all add: noraise_try)

lemma noraise_synth [simp]: "noraise (synth_task_id tid)"
  by (cases tid) (simp_all add: synth_task_id_def noraise_def bind_def datetime_now_def ret_def)

lemma noraise_create_task_at [simp]: "noraise (create_task_at M d tid p q)"
  unfolding create_task_at_def
  by (simp add: Let_def noraise_bind noraise_try)

lemma noraise_create_task [simp]: "noraise (create_task M d tid)"
  unfolding noraise_def
proof
  fix w
  obtain n w1 where s: "synth_task_id tid w = (Inr n, w1)"
    using noraiseD [OF noraise_synth] by blast
  show "\<exists>x w'. create_task M d tid w = (Inr x, w')"
    using s noraiseD [OF noraise_create_task_at]
    by (simp add: create_task_def bind_Inr Let_def)
qed

text \<open>
  The two transitions return a value when neither the path of the task nor the marker
  path holds a NUL character; a file name without NUL and without separator gives such
  a marker path.
\<close>

lemma noraise_move_to_in_progress_at:
  assumes "\<not> has_nul (snd (path t))" "\<not> has_nul (snd temp_reserved)"
  shows "noraise (move_to_in_progress_at S t temp_reserved dst_path temp_dst)"
  unfolding move_to_in_progress_at_def
  by (intro noraise_try noraise_bind noraise_ret noraise_safe_rename assms)

lemma noraise_move_to_done_at:
  assumes "\<not> has_nul (snd in_prog)" "\<not> has_nul (snd completing)"
  shows "noraise (move_to_done_at t su re er in_prog completing done_path temp_done)"
  unfolding move_to_done_at_def
  by (intro noraise_try noraise_bind noraise_ret noraise_safe_rename assms)

lemma marker_path:
  assumes "sfx = ''.reserved'' \<or> sfx = ''.completing''" "\<not> has_nul f" "CHR ''/'' \<notin> set f"
  shows "os_path_join w d (''.'' @ f @ sfx) = (d, ''.'' @ f @ sfx)"
  using assms by (auto simp: os_path_join_def single_component_def)

lemma move_to_in_progress_returns:
  assumes "\<not> has_nul (filename t)" "CHR ''/'' \<notin> set (filename t)" "\<not> has_nul (snd (path t))"
  shows "\<exists>x w'. move_to_in_progress S (Some t) w = (Inr x, w')"
proof (cases "shutdown S")
  case True
  then show ?thesis by (auto simp: move_to_in_progress_def ret_def)
next
  case False
  have m: "os_path_join w Todo (''.'' @ filename t @ ''.reserved'') =
           (Todo, ''.'' @ filename t @ ''.reserved'')"
    by (rule marker_path [OF _ assms(1,2)]) simp
  have n: "\<not> has_nul (snd (Todo, ''.'' @ filename t @ ''.reserved''))"
    using assms(1) by (simp add: has_nul_def)
  show ?thesis
    using False m noraiseD [OF noraise_move_to_in_progress_at [OF assms(3) n]]
    by (simp add: move_to_in_progress_def)
qed

lemma move_to_done_returns:
  assumes "\<not> has_nul (filename t)" "CHR ''/'' \<notin> set (filename t)" "\<not> has_nul (snd (path t))"
  shows "\<exists>x w'. move_to_done S (Some t) su re er w = (Inr x, w')"
proof (cases "shutdown S")
  case True
  then show ?thesis by (auto simp: move_to_done_def ret_def)
next
  case False
  have m: "os_path_join w InProgress (''.'' @ filename t @ ''.completing'') =
           (InProgress, ''.'' @ filename t @ ''.completing'')"
    by (rule marker_path [OF _ assms(1,2)]) simp
  have n: "\<not> has_nul (snd (InProgress, ''.'' @ filename t @ ''.completing''))"
    using assms(1) by (simp add: has_nul_def)
  show ?thesis
    using False m noraiseD [OF noraise_move_to_done_at [OF assms(3) n]]
    by (simp add: move_to_done_def)
qed

text \<open>
  When the lock cannot be acquired (the world at that point being the one left by the
  steps before it), \<open>recover_stale_tasks\<close> returns 0, \<open>get_next_task\<close> and \<open>create_task\<close>
  return \<^verbatim>\<open>None\<close>, and so do the two transitions, with \<^verbatim>\<open>None\<close> and \<^verbatim>\<open>False\<close>, for names
  without NUL. \<open>report_progress\<close> returns \<^verbatim>\<open>False\<close> in every case. An entry whose recovery
  raises is skipped: the scan goes on with the remaining entries and the same count.
\<close>

lemma lock_failure:
  "fst (acquire_lock n t r w) = Inl e \<Longrightarrow>
   try_except (bind (acquire_lock n t r) f) h w = h e (snd (acquire_lock n t r w))"
  by (cases "acquire_lock n t r w") (simp add: try_except_def bind_def)

lemma fst_bind_noraise: "noraise m \<Longrightarrow> fst (bind m (\<lambda>_. ret x) w) = Inr x"
  unfolding noraise_def bind_def ret_def
  by (metis (mono_tags, lifting) case_prod_conv fst_conv old.sum.simps(6))

lemma lock_failure_move_to_in_progress:
  assumes "\<not> shutdown S" "fst (acquire_lock ''task_move'' 10 5 w) = Inl e"
    and "\<not> has_nul (filename t)" "CHR ''/'' \<notin> set (filename t)" "\<not> has_nul (snd (path t))"
  shows "fst (move_to_in_progress S (Some t) w) = Inr None"
proof -
  have m: "os_path_join w Todo (''.'' @ filename t @ ''.reserved'') =
           (Todo, ''.'' @ filename t @ ''.reserved'')"
    by (rule marker_path [OF _ assms(3,4)]) simp
  have n: "\<not> has_nul (snd (Todo, ''.'' @ filename t @ ''.reserved''))"
    using assms(3) by (simp add: has_nul_def)
  show ?thesis
    using assms(1) m fst_bind_noraise [OF noraise_safe_rename [OF n assms(5)]]
    by (simp add: move_to_in_progress_def move_to_in_progress_at_def lock_failure [OF assms(2)])
qed

lemma lock_failure_move_to_done:
  assumes "\<not> shutdown S" "fst (acquire_lock ''task_done'' 10 5 w) = Inl e"
    and "\<not> has_nul (filename t)" "CHR ''/'' \<notin> set (filename t)" "\<not> has_nul (snd (path t))"
  shows "fst (move_to_done S (Some t) su re er w) = Inr False"
proof -
  have m: "os_path_join w InProgress (''.'' @ filename t @ ''.completing'') =
           (InProgress, ''.'' @ filename t @ ''.completing'')"
    by (rule marker_path [OF _ assms(3,4)]) simp
  have n: "\<not> has_nul (snd (InProgress, ''.'' @ filename t @ ''.completing''))"
    using assms(3) by (simp add: has_nul_def)
  show ?thesis
    using assms(1) m fst_bind_noraise [OF noraise_safe_rename [OF n assms(5)]]
    by (simp add: move_to_done_def move_to_done_at_def lock_failure [OF assms(2)])
qed

lemma bind_always_raises:
  "(\<And>x w. \<exists>e w'. f x w = (Inl e, w')) \<Longrightarrow> \<exists>e w'. bind m f w = (Inl e, w')"
  unfolding bind_def by (cases "m w") (auto split: sum.splits)

lemma report_progress_false: "fst (report_progress S t pct msg w) = Inr False"
proof (cases t)
  case None
  then show ?thesis by (simp add: report_progress_def ret_def)
next
  case (Some tk)
  have "\<exists>e w'. bind (acquire_lock (''progress_'' @ filename tk) 5 5) (\<lambda>_.
               bind (open_read (path tk)) (\<lambda>txt. (raise NameError :: bool io))) w = (Inl e, w')"
    by (intro bind_always_raises) (simp add: raise_def)
  then obtain e w' where "bind (acquire_lock (''progress_'' @ filename tk) 5 5) (\<lambda>_.
               bind (open_read (path tk)) (\<lambda>txt. (raise NameError :: bool io))) w = (Inl e, w')" by blast
  then have "try_except (bind (acquire_lock (''progress_'' @ filename tk) 5 5) (\<lambda>_.
               bind (open_read (path tk)) (\<lambda>txt. (raise NameError :: bool io)))) (\<lambda>_. ret False) w = (Inr False, w')"
    by (simp add: try_except_def ret_def)
  then show ?thesis using Some
    unfolding report_progress_def bind_syaml
    by (cases "shutdown S") (simp_all add: ret_def)
qed

lemma lock_failure_recover_stale_tasks:
  assumes "fst (acquire_lock ''stale_check'' 10 5 (snd (get_active_sessions tmo w))) = Inl e"
  shows "fst (recover_stale_tasks tmo a b w) = Inr 0"
proof -
  obtain act w1 where g: "get_active_sessions tmo w = (Inr act, w1)"
    using noraise_get_active_sessions [of tmo] unfolding noraise_def by blast
  show ?thesis
    using assms g unfolding recover_stale_tasks_def
    by (simp add: bind_Inr lock_failure ret_def)
qed

lemma lock_failure_get_next_task:
  assumes "\<not> shutdown S"
    and "fst (acquire_lock ''todo_lock'' 5 5
           (snd (bind (cleanup_temp_files Todo 3600) (\<lambda>_.
                 if cs then bind (recover_stale_tasks (timeout S) (session_id S) (hostname S)) (\<lambda>_. ret ())
                 else ret ()) w))) = Inl e"
  shows "fst (get_next_task S cs w) = Inr None"
proof -
  let ?pre = "if cs then bind (recover_stale_tasks (timeout S) (session_id S) (hostname S)) (\<lambda>_. ret ())
              else ret ()"
  obtain u w1 where c: "cleanup_temp_files Todo 3600 w = (Inr u, w1)"
    using noraise_cleanup [of Todo 3600] unfolding noraise_def by blast
  have "noraise ?pre" by (simp add: noraise_bind)
  then obtain v w2 where p: "?pre w1 = (Inr v, w2)" unfolding noraise_def by blast
  have l: "fst (acquire_lock ''todo_lock'' 5 5 w2) = Inl e"
    using assms(2) c p by (simp add: bind_Inr)
  show ?thesis
    using assms(1) c p unfolding get_next_task_def
    by (simp add: bind_Inr lock_failure [OF l] ret_def)
qed

lemma lock_failure_create_task:
  assumes "fst (acquire_lock ''task_create'' 10 3
             (snd (bind (synth_task_id tid) (\<lambda>_. datetime_now) w))) = Inl e"
  shows "fst (create_task M d tid w) = Inr None"
proof -
  obtain n w1 where s: "synth_task_id tid w = (Inr n, w1)"
    using noraise_synth [of tid] unfolding noraise_def by blast
  have l: "fst (acquire_lock ''task_create'' 10 3 (w1\<lparr>reads := Suc (reads w1)\<rparr>)) = Inl e"
    using assms s by (simp add: bind_Inr datetime_now_def)
  show ?thesis
    using s unfolding create_task_def create_task_at_def
    by (simp add: bind_Inr Let_def bind_now bind_iso lock_failure [OF l] fst_bind_noraise)
qed

lemma entry_isolated:
  assumes "fst (recover_entry tmo act f w) = Inl e"
  shows "recover_loop tmo act (f # fs) c w = recover_loop tmo act fs c (snd (recover_entry tmo act f w))"
  using assms
  by (cases "recover_entry tmo act f w") (simp add: bind_def try_except_def ret_def)

text \<open>
  Instances: with the lock timing out five times recovery returns 0 and leaves
  \<^verbatim>\<open>in_progress/a.yaml\<close> in place; with an undecodable entry listed first, that entry
  raises, and the stale entry after it is still recovered.
\<close>

lemma recover_stale_tasks_examples:
  "fst (acquire_lock ''stale_check'' 10 5 (snd (get_active_sessions 900000000 world_c7))) =
     Inl LockAcquisitionError \<and>
   fst (recover_stale_tasks 900000000 ''s2'' ''alpha'' world_c7) = Inr 0 \<and>
   visible_names (snd (recover_stale_tasks 900000000 ''s2'' ''alpha'' world_c7)) InProgress = [''a.yaml''] \<and>
   fst (recover_entry 900000000 [YStr ''s1''] ''bad.yaml'' world_c7_entries) = Inl YAMLError \<and>
   fst (recover_stale_tasks 900000000 ''s2'' ''alpha'' world_c7_entries) = Inr 1 \<and>
   visible_names (snd (recover_stale_tasks 900000000 ''s2'' ''alpha'' world_c7_entries)) Todo = [''a.yaml'']"
  by code_simp

section \<open>Error containment (C7)\<close>

text \<open>
  C7. Two failures are not contained by \<open>move_to_done\<close>. First, a rename that fails
  for good is swallowed by \<open>safe_rename\<close> (its last handler is \<^verbatim>\<open>pass\<close>), so the block
  under the lock runs on and the operation returns \<open>True\<close>: in \<open>world_c7_rename\<close> the
  rename of the written file into \<^verbatim>\<open>done/\<close> fails, the \<^verbatim>\<open>.completing\<close> marker is then
  removed, and the task is left in no listing while the caller is told it is done.
  Second, the handler of the operation calls \<open>safe_rename\<close> outside any \<^verbatim>\<open>try\<close>, and
  \<open>safe_rename\<close> catches \<^verbatim>\<open>OSError\<close> only around \<^verbatim>\<open>os.rename\<close>: for a task whose file name
  holds a NUL character \<^verbatim>\<open>os.rename\<close> raises \<^verbatim>\<open>ValueError\<close>, first under the lock, where
  it is caught, and again in the handler, from where it leaves \<open>move_to_done\<close> and
  \<open>move_to_in_progress\<close> uncaught.
\<close>

theorem move_to_done_failure_not_contained:
  "fst (move_to_done sched0 (Some task_c6_early) True YNone YNone world_c7_rename) = Inr True \<and>
   visible_names (snd (move_to_done sched0 (Some task_c6_early) True YNone YNone world_c7_rename))
     InProgress = [] \<and>
   visible_names (snd (move_to_done sched0 (Some task_c6_early) True YNone YNone world_c7_rename))
     Done = [] \<and>
   map fst (the (dirs (snd (move_to_done sched0 (Some task_c6_early) True YNone YNone
     world_c7_rename)) Done)) = [''a.yaml.tmp''] \<and>
   fst (move_to_done sched0 (Some task_nul) True YNone YNone world_c6) = Inl ValueError \<and>
   fst (move_to_in_progress sched0 (Some task_nul) world_c6) = Inl ValueError"
  by code_simp

section \<open>A task completed after it was recovered (C1, C8)\<close>

text \<open>
  C1. \<open>move_to_in_progress\<close> checks under its lock that the file it was given still
  exists and returns \<^verbatim>\<open>None\<close> otherwise; \<open>move_to_done\<close> has no such check. When the file
  of the handle has been recovered in the meantime, the rename to the \<^verbatim>\<open>.completing\<close>
  marker fails and is swallowed by \<open>safe_rename\<close>, and the cached record is written to
  \<^verbatim>\<open>done/\<close>: in the run of \<open>world_c1\<close> every state up to the recovery has each name in one
  directory, and after \<open>move_to_done\<close>, which returns \<open>True\<close>, \<^verbatim>\<open>a.yaml\<close> is visible both in
  \<^verbatim>\<open>todo/\<close> and in \<^verbatim>\<open>done/\<close>.
\<close>

theorem move_to_done_after_recovery_duplicates_task:
  "exclusive world_c1 \<and>
   visible_names (snd claimed_c1) InProgress = [''a.yaml''] \<and> exclusive (snd claimed_c1) \<and>
   fst recovered_c1 = Inr 1 \<and>
   visible_names (snd recovered_c1) Todo = [''a.yaml''] \<and> exclusive (snd recovered_c1) \<and>
   fst completed_c1 = Inr True \<and>
   visible_names (snd completed_c1) Todo = [''a.yaml''] \<and>
   visible_names (snd completed_c1) InProgress = [] \<and>
   visible_names (snd completed_c1) Done = [''a.yaml''] \<and>
   exclusive (snd completed_c1) = False"
  by code_simp

text \<open>
  C8. In the same run the record of \<^verbatim>\<open>a.yaml\<close> is created with \<^verbatim>\<open>retries\<close> 0, the
  recovery persists it with \<^verbatim>\<open>retries\<close> 1, and \<open>move_to_done\<close> then writes the record
  cached in the handle, with \<^verbatim>\<open>retries\<close> 0, for the same file name.
\<close>

theorem move_to_done_after_recovery_lowers_retries:
  "retries_at (snd claimed_c1) (InProgress, ''a.yaml'') = Some (YInt 0) \<and>
   retries_at (snd recovered_c1) (Todo, ''a.yaml'') = Some (YInt 1) \<and>
   retries_at (snd recovered_c1) (Done, ''a.yaml'') = None \<and>
   fst completed_c1 = Inr True \<and>
   retries_at (snd completed_c1) (Done, ''a.yaml'') = Some (YInt 0) \<and>
   retries_at (snd completed_c1) (Todo, ''a.yaml'') = Some (YInt 1)"
  by code_simp

end
